theory Spec2Isabelle
  imports Main
begin

section \<open>The contact-point provisioning service\<close>

text \<open>
  A shallow embedding of the Go service \<^verbatim>\<open>EmbeddedContactPointService\<close>
  (package \<^verbatim>\<open>provisioning\<close>). The service reads the Alertmanager configuration of
  an organisation from a store, changes the in-memory copy and writes it back guarded by
  the hash it fetched. Everything the service is given from outside (the stores, the
  encryption service, base64, JSON (de)serialisation, validation and the secret-key
  schema) is a field of the record \<open>EmbeddedContactPointService\<close>; the state of the
  stores is threaded through every operation.
\<close>

subsection \<open>Data model\<close>

text \<open>JSON values as \<^verbatim>\<open>simplejson\<close> holds them; \<open>MustString\<close> is the empty string on
  everything that is not a string.\<close>

datatype json = JNull | JBool bool | JNumber int | JString string
  | JArray "json list" | JObject "(string \<times> json) list"

fun MustString :: "json \<Rightarrow> string" where
  "MustString (JString s) = s"
| "MustString _ = []"

text \<open>\<open>Settings\<close> is a mapping of string keys to JSON values.\<close>

type_synonym settings = "string \<rightharpoonup> json"

definition Get :: "settings \<Rightarrow> string \<Rightarrow> json" where
  "Get j key = (case j key of None \<Rightarrow> JNull | Some v \<Rightarrow> v)"

definition SetKey :: "settings \<Rightarrow> string \<Rightarrow> json \<Rightarrow> settings" where
  "SetKey j key val = j(key \<mapsto> val)"

text \<open>Modelled from the spec: the fixed redaction sentinel \<^verbatim>\<open>apimodels.RedactedValue\<close>,
  a constant string declared outside the files at hand.\<close>

definition RedactedValue :: string where
  "RedactedValue = ''[REDACTED]''"

text \<open>The errors the service itself creates, and the errors of its collaborators.\<close>

datatype error =
    NotFound string          \<comment> \<open>\<^verbatim>\<open>contact point with uid '%s' not found\<close>\<close>
  | NotValid error           \<comment> \<open>\<^verbatim>\<open>contact point is not valid: %w\<close>\<close>
  | EncryptFailed error      \<comment> \<open>\<^verbatim>\<open>failed to encrypt secure settings: %w\<close>\<close>
  | ConcurrentModification
  | NoConfiguration
  | ValidationError string
  | CryptoError string
  | StoreError string

fun Error :: "error \<Rightarrow> string" where
  "Error (NotFound uid) = ''contact point with uid '' @ [CHR 0x27] @ uid @ [CHR 0x27] @ '' not found''"
| "Error (NotValid err) = ''contact point is not valid: '' @ Error err"
| "Error (EncryptFailed err) = ''failed to encrypt secure settings: '' @ Error err"
| "Error ConcurrentModification = ''concurrent modification''"
| "Error NoConfiguration = ''no configuration''"
| "Error (ValidationError m) = m"
| "Error (CryptoError m) = m"
| "Error (StoreError m) = m"

text \<open>The fields \<^verbatim>\<open>EmbeddedContactPoint\<close> and \<^verbatim>\<open>PostableGrafanaReceiver\<close> share
  are declared once; each struct extends them by the field of its own.\<close>

record receiver_fields =
  UID :: string
  Name :: string
  Type :: string
  DisableResolveMessage :: bool
  Settings :: settings

record EmbeddedContactPoint = receiver_fields +
  Provenance :: string

record PostableGrafanaReceiver = receiver_fields +
  SecureSettings :: "(string \<times> string) list"

record PostableApiReceiver =
  Receiver_Name :: string
  GrafanaManagedReceivers :: "PostableGrafanaReceiver list"

record PostableUserConfig =
  Receivers :: "PostableApiReceiver list"

record 'd SaveAlertmanagerConfigurationCmd =
  AlertmanagerConfiguration :: 'd
  FetchedConfigurationHash :: string
  ConfigurationVersion :: string
  Default :: bool
  OrgID :: int

datatype log_entry = Info string string "string \<rightharpoonup> string"

text \<open>
  The collaborators of the service: \<open>'s\<close> is the state of the stores, \<open>'d\<close> the
  serialised configuration document. The first five fields are the methods of
  \<^verbatim>\<open>amStore\<close> and \<^verbatim>\<open>provenanceStore\<close>, the next two those of
  \<^verbatim>\<open>encryptionService\<close>; the rest are the library and package functions the service
  calls: \<^verbatim>\<open>base64.StdEncoding\<close>, \<^verbatim>\<open>json.Marshal\<close>,
  \<^verbatim>\<open>DeserializeAlertmanagerConfig\<close>, and the methods \<^verbatim>\<open>IsValid\<close> and
  \<^verbatim>\<open>SecretKeys\<close> of a contact point (the secret keys are decided by its type).
\<close>

record ('s, 'd) EmbeddedContactPointService =
  GetLatestAlertmanagerConfiguration :: "int \<Rightarrow> 's \<Rightarrow> error + ('d \<times> string)"
  UpdateAlertmanagerConfiguration :: "'d SaveAlertmanagerConfigurationCmd \<Rightarrow> 's \<Rightarrow> error + 's"
  GetProvenances :: "int \<Rightarrow> string \<Rightarrow> 's \<Rightarrow> error + (string \<rightharpoonup> string)"
  SetProvenance :: "int \<Rightarrow> EmbeddedContactPoint \<Rightarrow> string \<Rightarrow> 's \<Rightarrow> error + 's"
  DeleteProvenance :: "int \<Rightarrow> EmbeddedContactPoint \<Rightarrow> 's \<Rightarrow> error + 's"
  Encrypt :: "string \<Rightarrow> error + string"
  Decrypt :: "string \<Rightarrow> error + string"
  EncodeToString :: "string \<Rightarrow> string"
  DecodeString :: "string \<Rightarrow> error + string"
  Marshal :: "PostableUserConfig \<Rightarrow> error + 'd"
  DeserializeAlertmanagerConfig :: "'d \<Rightarrow> error + PostableUserConfig"
  IsValid :: "EmbeddedContactPoint \<Rightarrow> error option"
  SecretKeys :: "string \<Rightarrow> error + string list"

subsection \<open>Helpers of the service\<close>

definition getCurrentConfig ::
  "('s, 'd) EmbeddedContactPointService \<Rightarrow> int \<Rightarrow> 's \<Rightarrow> error + (PostableUserConfig \<times> string)" where
  "getCurrentConfig ecp orgID s =
     (case GetLatestAlertmanagerConfiguration ecp orgID s of
        Inl err \<Rightarrow> Inl err
      | Inr (raw, hash) \<Rightarrow>
          (case DeserializeAlertmanagerConfig ecp raw of
             Inl err \<Rightarrow> Inl err
           | Inr cfg \<Rightarrow> Inr (cfg, hash)))"

definition decrypteValue :: "('s, 'd) EmbeddedContactPointService \<Rightarrow> string \<Rightarrow> error + string" where
  "decrypteValue ecp v =
     (case DecodeString ecp v of
        Inl err \<Rightarrow> Inl err
      | Inr decodeValue \<Rightarrow>
          (case Decrypt ecp decodeValue of
             Inl err \<Rightarrow> Inl err
           | Inr decryptedValue \<Rightarrow> Inr decryptedValue))"

definition encryptValue :: "('s, 'd) EmbeddedContactPointService \<Rightarrow> string \<Rightarrow> error + string" where
  "encryptValue ecp v =
     (case Encrypt ecp v of
        Inl err \<Rightarrow> Inl (EncryptFailed err)
      | Inr encryptedData \<Rightarrow> Inr (EncodeToString ecp encryptedData))"

text \<open>Modelled from the spec: \<^verbatim>\<open>GetGrafanaReceiverMap\<close> is a method of the configuration
  declared outside the files at hand; the listing "iterates every receiver across every
  group". The receivers are taken in document order.\<close>

definition GetGrafanaReceiverMap :: "PostableUserConfig \<Rightarrow> PostableGrafanaReceiver list" where
  "GetGrafanaReceiverMap cfg = concat (map GrafanaManagedReceivers (Receivers cfg))"

text \<open>Modelled from the spec: \<^verbatim>\<open>ExtractSecrtes\<close> is a method of the contact point
  declared outside the files at hand. It "determines which Settings keys are secret per
  that type's schema, removes them from Settings, and returns them keyed by name"; the
  settings are held by reference, so the contact point is returned without them.\<close>

definition ExtractSecrtes ::
  "('s, 'd) EmbeddedContactPointService \<Rightarrow> EmbeddedContactPoint
     \<Rightarrow> error + ((string \<times> string) list \<times> EmbeddedContactPoint)" where
  "ExtractSecrtes ecp contactPoint =
     (case SecretKeys ecp (Type contactPoint) of
        Inl err \<Rightarrow> Inl err
      | Inr secretKeys \<Rightarrow>
          Inr (map (\<lambda>secretKey. (secretKey, MustString (Get (Settings contactPoint) secretKey))) secretKeys,
               contactPoint\<lparr>Settings := Settings contactPoint |` (- set secretKeys)\<rparr>))"

text \<open>Modelled from the spec: \<^verbatim>\<open>InTransaction\<close> is a method of the injected transaction
  manager. "If either half fails, the whole transaction rolls back": the state is the one
  the function leaves when it returns no error, and the one before otherwise.\<close>

definition InTransaction :: "('s \<Rightarrow> error + 's) \<Rightarrow> 's \<Rightarrow> error option \<times> 's" where
  "InTransaction f s = (case f s of Inl err \<Rightarrow> (Some err, s) | Inr s' \<Rightarrow> (None, s'))"

text \<open>The loop over \<^verbatim>\<open>SecureSettings\<close> that both read paths run: a value that does not
  decrypt, or decrypts to the empty string, is passed over (\<^verbatim>\<open>continue\<close>); for the others
  the key is set to \<open>shown decryptedValue\<close>. The listing shows the sentinel, the internal
  accessor the decrypted value.\<close>

fun setSecureSettings ::
  "('s, 'd) EmbeddedContactPointService \<Rightarrow> (string \<Rightarrow> string) \<Rightarrow> (string \<times> string) list
     \<Rightarrow> settings \<Rightarrow> settings" where
  "setSecureSettings ecp shown [] j = j"
| "setSecureSettings ecp shown ((k, v) # kvs) j =
     (case decrypteValue ecp v of
        Inl err \<Rightarrow> setSecureSettings ecp shown kvs j
      | Inr decryptedValue \<Rightarrow>
          if decryptedValue = [] then setSecureSettings ecp shown kvs j
          else setSecureSettings ecp shown kvs (SetKey j k (JString (shown decryptedValue))))"

subsection \<open>GetContactPoints\<close>

definition listContactPoint ::
  "('s, 'd) EmbeddedContactPointService \<Rightarrow> (string \<rightharpoonup> string) \<Rightarrow> PostableGrafanaReceiver
     \<Rightarrow> EmbeddedContactPoint" where
  "listContactPoint ecp provenances contactPoint =
     \<lparr>UID = UID contactPoint, Name = Name contactPoint, Type = Type contactPoint,
      DisableResolveMessage = DisableResolveMessage contactPoint,
      Settings = setSecureSettings ecp (\<lambda>_. RedactedValue) (SecureSettings contactPoint)
                   (Settings contactPoint),
      Provenance = (case provenances (UID contactPoint) of
                      None \<Rightarrow> []
                    | Some val \<Rightarrow> if val \<noteq> [] then val else [])\<rparr>"

text \<open>The result comes with the entries written to the log.\<close>

definition GetContactPoints ::
  "('s, 'd) EmbeddedContactPointService \<Rightarrow> int \<Rightarrow> 's
     \<Rightarrow> log_entry list \<times> (error + EmbeddedContactPoint list)" where
  "GetContactPoints ecp orgID s =
     (case getCurrentConfig ecp orgID s of
        Inl err \<Rightarrow> ([], Inl err)
      | Inr (cfg, _) \<Rightarrow>
          (case GetProvenances ecp orgID ''contactpoint'' s of
             Inl err \<Rightarrow> ([], Inl err)
           | Inr provenances \<Rightarrow>
               ([Info ''provenances'' ''map'' provenances],
                Inr (map (listContactPoint ecp provenances) (GetGrafanaReceiverMap cfg)))))"

subsection \<open>getContactPointUncrypted\<close>

definition uncryptedContactPoint ::
  "('s, 'd) EmbeddedContactPointService \<Rightarrow> PostableGrafanaReceiver \<Rightarrow> EmbeddedContactPoint" where
  "uncryptedContactPoint ecp receiver =
     \<lparr>UID = UID receiver, Name = Name receiver, Type = Type receiver,
      DisableResolveMessage = DisableResolveMessage receiver,
      Settings = setSecureSettings ecp (\<lambda>decryptedValue. decryptedValue) (SecureSettings receiver)
                   (Settings receiver),
      Provenance = []\<rparr>"

definition getContactPointUncrypted ::
  "('s, 'd) EmbeddedContactPointService \<Rightarrow> int \<Rightarrow> string \<Rightarrow> 's \<Rightarrow> error + EmbeddedContactPoint" where
  "getContactPointUncrypted ecp orgID uid s =
     (case getCurrentConfig ecp orgID s of
        Inl err \<Rightarrow> Inl err
      | Inr (cfg, _) \<Rightarrow>
          (case find (\<lambda>receiver. UID receiver = uid) (GetGrafanaReceiverMap cfg) of
             Some receiver \<Rightarrow> Inr (uncryptedContactPoint ecp receiver)
           | None \<Rightarrow> Inl (NotFound uid)))"

subsection \<open>CreateContactPoint\<close>

text \<open>The loop that encrypts every extracted secret; the first failure is returned.\<close>

fun encryptSecrets ::
  "('s, 'd) EmbeddedContactPointService \<Rightarrow> (string \<times> string) list
     \<Rightarrow> error + (string \<times> string) list" where
  "encryptSecrets ecp [] = Inr []"
| "encryptSecrets ecp ((k, v) # kvs) =
     (case encryptValue ecp v of
        Inl err \<Rightarrow> Inl err
      | Inr encryptedValue \<Rightarrow>
          (case encryptSecrets ecp kvs of
             Inl err \<Rightarrow> Inl err
           | Inr rest \<Rightarrow> Inr ((k, encryptedValue) # rest)))"

text \<open>The loop over the receiver groups: every group of the contact point's name gets the
  new receiver at the end of its members, and \<open>receiverFound\<close> records that there was one.\<close>

fun appendToReceivers ::
  "PostableGrafanaReceiver \<Rightarrow> PostableApiReceiver list \<Rightarrow> bool
     \<Rightarrow> PostableApiReceiver list \<times> bool" where
  "appendToReceivers grafanaReceiver [] receiverFound = ([], receiverFound)"
| "appendToReceivers grafanaReceiver (receiver # rest) receiverFound =
     (if Receiver_Name receiver = Name grafanaReceiver
      then (case appendToReceivers grafanaReceiver rest True of
              (rest', found) \<Rightarrow>
                (receiver\<lparr>GrafanaManagedReceivers :=
                    GrafanaManagedReceivers receiver @ [grafanaReceiver]\<rparr> # rest', found))
      else (case appendToReceivers grafanaReceiver rest receiverFound of
              (rest', found) \<Rightarrow> (receiver # rest', found)))"

definition addReceiver :: "PostableGrafanaReceiver \<Rightarrow> PostableUserConfig \<Rightarrow> PostableUserConfig" where
  "addReceiver grafanaReceiver cfg =
     (case appendToReceivers grafanaReceiver (Receivers cfg) False of
        (receivers, receiverFound) \<Rightarrow>
          if \<not> receiverFound
          then cfg\<lparr>Receivers := receivers @
                 [\<lparr>Receiver_Name = Name grafanaReceiver,
                   GrafanaManagedReceivers = [grafanaReceiver]\<rparr>]\<rparr>
          else cfg\<lparr>Receivers := receivers\<rparr>)"

definition saveCmd :: "'d \<Rightarrow> string \<Rightarrow> int \<Rightarrow> 'd SaveAlertmanagerConfigurationCmd" where
  "saveCmd data fetchedHash orgID =
     \<lparr>AlertmanagerConfiguration = data, FetchedConfigurationHash = fetchedHash,
      ConfigurationVersion = ''v1'', Default = False, OrgID = orgID\<rparr>"

text \<open>\<open>newUID\<close> is the value \<^verbatim>\<open>util.GenerateShortUID()\<close> returns at this call.\<close>

definition CreateContactPoint ::
  "('s, 'd) EmbeddedContactPointService \<Rightarrow> int \<Rightarrow> EmbeddedContactPoint \<Rightarrow> string \<Rightarrow> string \<Rightarrow> 's
     \<Rightarrow> (error + EmbeddedContactPoint) \<times> 's" where
  "CreateContactPoint ecp orgID contactPoint provenance newUID s =
     (case IsValid ecp contactPoint of
        Some err \<Rightarrow> (Inl (NotValid err), s)
      | None \<Rightarrow>
     (case getCurrentConfig ecp orgID s of
        Inl err \<Rightarrow> (Inl err, s)
      | Inr (cfg, fetchedHash) \<Rightarrow>
     (case ExtractSecrtes ecp contactPoint of
        Inl err \<Rightarrow> (Inl err, s)
      | Inr (plainSecrets, strippedContactPoint) \<Rightarrow>
     (case encryptSecrets ecp plainSecrets of
        Inl err \<Rightarrow> (Inl err, s)
      | Inr extracedSecrets \<Rightarrow>
     (let contactPoint' = strippedContactPoint\<lparr>UID := newUID\<rparr>;
          grafanaReceiver =
            \<lparr>UID = UID contactPoint', Name = Name contactPoint', Type = Type contactPoint',
             DisableResolveMessage = DisableResolveMessage contactPoint',
             Settings = Settings contactPoint', SecureSettings = extracedSecrets\<rparr>
      in
     (case Marshal ecp (addReceiver grafanaReceiver cfg) of
        Inl err \<Rightarrow> (Inl err, s)
      | Inr data \<Rightarrow>
     (case InTransaction
             (\<lambda>s. case UpdateAlertmanagerConfiguration ecp (saveCmd data fetchedHash orgID) s of
                     Inl err \<Rightarrow> Inl err
                   | Inr s' \<Rightarrow> SetProvenance ecp orgID contactPoint' provenance s') s of
        (Some err, s') \<Rightarrow> (Inl err, s')
      | (None, s') \<Rightarrow> (Inr (contactPoint'\<lparr>Provenance := provenance\<rparr>), s'))))))))"

subsection \<open>UpdateContactPoint\<close>

text \<open>The loop over the secret keys: a value equal to the sentinel is replaced by the string
  the unredacted contact point has under that key.\<close>

fun mergeRedacted ::
  "EmbeddedContactPoint \<Rightarrow> string list \<Rightarrow> EmbeddedContactPoint \<Rightarrow> EmbeddedContactPoint" where
  "mergeRedacted rawContactPoint [] contactPoint = contactPoint"
| "mergeRedacted rawContactPoint (secretKey # rest) contactPoint =
     (let secretValue = MustString (Get (Settings contactPoint) secretKey)
      in if secretValue = RedactedValue
         then mergeRedacted rawContactPoint rest
                (contactPoint\<lparr>Settings := SetKey (Settings contactPoint) secretKey
                    (JString (MustString (Get (Settings rawContactPoint) secretKey)))\<rparr>)
         else mergeRedacted rawContactPoint rest contactPoint)"

text \<open>The inner loop: the first member with the UID of \<open>mergedReceiver\<close> is replaced;
  \<open>None\<close> is \<^verbatim>\<open>receiverNotFound\<close> still true when the loop ends.\<close>

fun replaceMember ::
  "PostableGrafanaReceiver \<Rightarrow> PostableGrafanaReceiver list \<Rightarrow> PostableGrafanaReceiver list option" where
  "replaceMember mergedReceiver [] = None"
| "replaceMember mergedReceiver (grafanaReceiver # rest) =
     (if UID grafanaReceiver = UID mergedReceiver then Some (mergedReceiver # rest)
      else (case replaceMember mergedReceiver rest of
              None \<Rightarrow> None
            | Some rest' \<Rightarrow> Some (grafanaReceiver # rest')))"

text \<open>The outer loop: only the groups of the contact point's name are searched, and the
  first of them without the UID ends the update with an error.\<close>

fun replaceInReceivers ::
  "PostableGrafanaReceiver \<Rightarrow> PostableApiReceiver list \<Rightarrow> error + PostableApiReceiver list" where
  "replaceInReceivers mergedReceiver [] = Inr []"
| "replaceInReceivers mergedReceiver (receiver # rest) =
     (if Receiver_Name receiver = Name mergedReceiver
      then (case replaceMember mergedReceiver (GrafanaManagedReceivers receiver) of
              None \<Rightarrow> Inl (NotFound (UID mergedReceiver))
            | Some members \<Rightarrow>
                (case replaceInReceivers mergedReceiver rest of
                   Inl err \<Rightarrow> Inl err
                 | Inr rest' \<Rightarrow> Inr (receiver\<lparr>GrafanaManagedReceivers := members\<rparr> # rest')))
      else (case replaceInReceivers mergedReceiver rest of
              Inl err \<Rightarrow> Inl err
            | Inr rest' \<Rightarrow> Inr (receiver # rest')))"

definition UpdateContactPoint ::
  "('s, 'd) EmbeddedContactPointService \<Rightarrow> int \<Rightarrow> EmbeddedContactPoint \<Rightarrow> 's
     \<Rightarrow> error option \<times> 's" where
  "UpdateContactPoint ecp orgID contactPoint s =
     (case getContactPointUncrypted ecp orgID (UID contactPoint) s of
        Inl err \<Rightarrow> (Some err, s)
      | Inr rawContactPoint \<Rightarrow>
     (case SecretKeys ecp (Type contactPoint) of
        Inl err \<Rightarrow> (Some err, s)
      | Inr secretKeys \<Rightarrow>
     (let mergedContactPoint = mergeRedacted rawContactPoint secretKeys contactPoint in
     (case IsValid ecp mergedContactPoint of
        Some err \<Rightarrow> (Some err, s)
      | None \<Rightarrow>
     (case ExtractSecrtes ecp mergedContactPoint of
        Inl err \<Rightarrow> (Some err, s)
      | Inr (plainSecrets, strippedContactPoint) \<Rightarrow>
     (case encryptSecrets ecp plainSecrets of
        Inl err \<Rightarrow> (Some err, s)
      | Inr extracedSecrets \<Rightarrow>
     (let mergedReceiver =
            \<lparr>UID = UID strippedContactPoint, Name = Name strippedContactPoint,
             Type = Type strippedContactPoint,
             DisableResolveMessage = DisableResolveMessage strippedContactPoint,
             Settings = Settings strippedContactPoint, SecureSettings = extracedSecrets\<rparr>
      in
     (case getCurrentConfig ecp orgID s of
        Inl err \<Rightarrow> (Some err, s)
      | Inr (cfg, fetchedHash) \<Rightarrow>
     (case replaceInReceivers mergedReceiver (Receivers cfg) of
        Inl err \<Rightarrow> (Some err, s)
      | Inr receivers \<Rightarrow>
     (case Marshal ecp (cfg\<lparr>Receivers := receivers\<rparr>) of
        Inl err \<Rightarrow> (Some err, s)
      | Inr data \<Rightarrow>
     (case UpdateAlertmanagerConfiguration ecp (saveCmd data fetchedHash orgID) s of
        Inl err \<Rightarrow> (Some err, s)
      | Inr s' \<Rightarrow> (None, s'))))))))))))"

subsection \<open>DeleteContactPoint\<close>

text \<open>The inner loop: the first member with the UID is cut out of the group.\<close>

fun removeMember :: "string \<Rightarrow> PostableGrafanaReceiver list \<Rightarrow> PostableGrafanaReceiver list" where
  "removeMember uid [] = []"
| "removeMember uid (grafanaReceiver # rest) =
     (if UID grafanaReceiver = uid then rest else grafanaReceiver # removeMember uid rest)"

definition removeFromReceivers :: "string \<Rightarrow> PostableApiReceiver list \<Rightarrow> PostableApiReceiver list" where
  "removeFromReceivers uid receivers =
     map (\<lambda>receiver. receiver\<lparr>GrafanaManagedReceivers :=
            removeMember uid (GrafanaManagedReceivers receiver)\<rparr>) receivers"

definition DeleteContactPoint ::
  "('s, 'd) EmbeddedContactPointService \<Rightarrow> int \<Rightarrow> string \<Rightarrow> 's \<Rightarrow> error option \<times> 's" where
  "DeleteContactPoint ecp orgID uid s =
     (case getCurrentConfig ecp orgID s of
        Inl err \<Rightarrow> (Some err, s)
      | Inr (cfg, fetchedHash) \<Rightarrow>
     (case Marshal ecp (cfg\<lparr>Receivers := removeFromReceivers uid (Receivers cfg)\<rparr>) of
        Inl err \<Rightarrow> (Some err, s)
      | Inr data \<Rightarrow>
          InTransaction
            (\<lambda>s. case DeleteProvenance ecp orgID
                         \<lparr>UID = uid, Name = [], Type = [], DisableResolveMessage = False,
                          Settings = Map.empty, Provenance = []\<rparr> s of
                    Inl err \<Rightarrow> Inl err
                  | Inr s' \<Rightarrow> UpdateAlertmanagerConfiguration ecp (saveCmd data fetchedHash orgID) s')
            s))"

subsection \<open>The stores\<close>

text \<open>Modelled from the spec: the stores are injected and their code is outside the files
  at hand. The configuration store keeps, for every organisation, the latest document and
  its content hash; "SaveIfUnchanged ... commits it only if the store's current hash still
  equals expectedHash; fails with ConcurrentModification otherwise". The provenance store
  keeps a tag for every (organisation, UID) of kind \<^verbatim>\<open>contactpoint\<close>; its deletion is
  idempotent. \<open>H\<close> is the content hash.\<close>

record 'd store =
  configs :: "int \<rightharpoonup> 'd \<times> string"
  provenance_records :: "int \<Rightarrow> string \<rightharpoonup> string"

definition store_GetLatest :: "int \<Rightarrow> 'd store \<Rightarrow> error + ('d \<times> string)" where
  "store_GetLatest orgID s =
     (case configs s orgID of None \<Rightarrow> Inl NoConfiguration | Some c \<Rightarrow> Inr c)"

definition store_Update ::
  "('d \<Rightarrow> string) \<Rightarrow> 'd SaveAlertmanagerConfigurationCmd \<Rightarrow> 'd store \<Rightarrow> error + 'd store" where
  "store_Update H cmd s =
     (case configs s (OrgID cmd) of
        None \<Rightarrow> Inl ConcurrentModification
      | Some (current, currentHash) \<Rightarrow>
          if currentHash = FetchedConfigurationHash cmd
          then Inr (s\<lparr>configs := (configs s)(OrgID cmd \<mapsto>
                      (AlertmanagerConfiguration cmd, H (AlertmanagerConfiguration cmd)))\<rparr>)
          else Inl ConcurrentModification)"

definition store_GetProvenances :: "int \<Rightarrow> string \<Rightarrow> 'd store \<Rightarrow> error + (string \<rightharpoonup> string)" where
  "store_GetProvenances orgID kind s =
     Inr (if kind = ''contactpoint'' then provenance_records s orgID else Map.empty)"

definition store_SetProvenance ::
  "int \<Rightarrow> EmbeddedContactPoint \<Rightarrow> string \<Rightarrow> 'd store \<Rightarrow> error + 'd store" where
  "store_SetProvenance orgID resource tag s =
     Inr (s\<lparr>provenance_records :=
            (provenance_records s)(orgID := (provenance_records s orgID)(UID resource \<mapsto> tag))\<rparr>)"

definition store_DeleteProvenance ::
  "int \<Rightarrow> EmbeddedContactPoint \<Rightarrow> 'd store \<Rightarrow> error + 'd store" where
  "store_DeleteProvenance orgID resource s =
     Inr (s\<lparr>provenance_records :=
            (provenance_records s)(orgID := (provenance_records s orgID)(UID resource := None))\<rparr>)"

text \<open>A service over these stores; every other collaborator is the one of \<open>ecp\<close>.\<close>

definition withStores ::
  "('d \<Rightarrow> string) \<Rightarrow> ('d store, 'd) EmbeddedContactPointService
     \<Rightarrow> ('d store, 'd) EmbeddedContactPointService" where
  "withStores H ecp =
     ecp\<lparr>GetLatestAlertmanagerConfiguration := store_GetLatest,
         UpdateAlertmanagerConfiguration := store_Update H,
         GetProvenances := store_GetProvenances,
         SetProvenance := store_SetProvenance,
         DeleteProvenance := store_DeleteProvenance\<rparr>"

subsection \<open>Populated secrets\<close>

text \<open>A stored ciphertext is populated when it decodes and decrypts to a non-empty
  value; the secure settings are a Go map, so what the read paths show under a key is
  decided by the populated values stored under it.\<close>

definition populated :: "('s, 'd) EmbeddedContactPointService \<Rightarrow> string \<Rightarrow> bool" where
  "populated ecp v =
     (case decrypteValue ecp v of Inl err \<Rightarrow> False | Inr decryptedValue \<Rightarrow> decryptedValue \<noteq> [])"

subsection \<open>An example instance\<close>

text \<open>A small service over the stores above, with a toy cipher (a leading \<^verbatim>\<open>#\<close>) and a
  toy encoding (a leading \<^verbatim>\<open>=\<close>), and a configuration with two receiver groups; the
  second receiver of the first group holds a secret that does not decode.\<close>

definition exampleSecretKeys :: "string \<Rightarrow> error + string list" where
  "exampleSecretKeys t =
     (if t = ''webhook'' then Inr [''password'']
      else if t = ''email'' then Inr []
      else Inl (ValidationError ''unknown type''))"

definition exampleDecrypt :: "string \<Rightarrow> error + string" where
  "exampleDecrypt c = (case c of x # p \<Rightarrow> if x = CHR ''#'' then Inr p else Inl (CryptoError ''cannot decrypt'')
      | [] \<Rightarrow> Inl (CryptoError ''cannot decrypt''))"

definition exampleDecode :: "string \<Rightarrow> error + string" where
  "exampleDecode c = (case c of x # p \<Rightarrow> if x = CHR ''='' then Inr p else Inl (CryptoError ''illegal base64 data'')
      | [] \<Rightarrow> Inr [])"

definition exampleHash :: "PostableUserConfig \<Rightarrow> string" where
  "exampleHash cfg =
     concat (map (\<lambda>receiver. Receiver_Name receiver @ '':'' @
               concat (map (\<lambda>r. UID r @ '','') (GrafanaManagedReceivers receiver)) @ '';'')
            (Receivers cfg))"

definition exampleService ::
  "(PostableUserConfig store, PostableUserConfig) EmbeddedContactPointService" where
  "exampleService =
     \<lparr>GetLatestAlertmanagerConfiguration = store_GetLatest,
      UpdateAlertmanagerConfiguration = store_Update exampleHash,
      GetProvenances = store_GetProvenances,
      SetProvenance = store_SetProvenance,
      DeleteProvenance = store_DeleteProvenance,
      Encrypt = (\<lambda>p. Inr (CHR ''#'' # p)),
      Decrypt = exampleDecrypt,
      EncodeToString = (\<lambda>b. CHR ''='' # b),
      DecodeString = exampleDecode,
      Marshal = Inr,
      DeserializeAlertmanagerConfig = Inr,
      IsValid = (\<lambda>contactPoint. if Name contactPoint = [] then Some (ValidationError ''no name'') else None),
      SecretKeys = exampleSecretKeys\<rparr>"

definition exampleConfig :: PostableUserConfig where
  "exampleConfig =
     \<lparr>Receivers =
        [\<lparr>Receiver_Name = ''ops'',
          GrafanaManagedReceivers =
            [\<lparr>UID = ''u1'', Name = ''ops'', Type = ''webhook'', DisableResolveMessage = False,
              Settings = [''url'' \<mapsto> JString ''http://x''],
              SecureSettings = [(''password'', ''=#hunter2'')]\<rparr>,
             \<lparr>UID = ''u2'', Name = ''ops'', Type = ''webhook'', DisableResolveMessage = True,
              Settings = [''url'' \<mapsto> JString ''http://y''],
              SecureSettings = [(''password'', ''!corrupt''), (''token'', ''=#'')]\<rparr>]\<rparr>,
         \<lparr>Receiver_Name = ''dev'',
          GrafanaManagedReceivers =
            [\<lparr>UID = ''u3'', Name = ''dev'', Type = ''email'', DisableResolveMessage = False,
              Settings = [''addresses'' \<mapsto> JString ''a@x.com''],
              SecureSettings = []\<rparr>]\<rparr>]\<rparr>"

definition exampleStore :: "PostableUserConfig store" where
  "exampleStore =
     \<lparr>configs = [1 \<mapsto> (exampleConfig, exampleHash exampleConfig)],
      provenance_records = (\<lambda>orgID. if orgID = 1 then [''u1'' \<mapsto> ''api''] else Map.empty)\<rparr>"


definition exampleListing :: "EmbeddedContactPoint list" where
  "exampleListing =
     [\<lparr>UID = ''u1'', Name = ''ops'', Type = ''webhook'', DisableResolveMessage = False,
       Settings = [''url'' \<mapsto> JString ''http://x'', ''password'' \<mapsto> JString RedactedValue],
       Provenance = ''api''\<rparr>,
      \<lparr>UID = ''u2'', Name = ''ops'', Type = ''webhook'', DisableResolveMessage = True,
       Settings = [''url'' \<mapsto> JString ''http://y''],
       Provenance = []\<rparr>,
      \<lparr>UID = ''u3'', Name = ''dev'', Type = ''email'', DisableResolveMessage = False,
       Settings = [''addresses'' \<mapsto> JString ''a@x.com''],
       Provenance = []\<rparr>]"

definition exampleContactPoint :: EmbeddedContactPoint where
  "exampleContactPoint =
     \<lparr>UID = [], Name = ''ops'', Type = ''webhook'', DisableResolveMessage = False,
      Settings = [''url'' \<mapsto> JString ''http://z'', ''password'' \<mapsto> JString ''s3cret''],
      Provenance = []\<rparr>"

text \<open>The same service with a provenance store whose writes fail.\<close>

definition failingProvenanceService ::
  "(PostableUserConfig store, PostableUserConfig) EmbeddedContactPointService" where
  "failingProvenanceService =
     exampleService\<lparr>SetProvenance :=
       (\<lambda>orgID resource tag s. Inl (StoreError ''provenance write failed''))\<rparr>"

definition exampleCreated :: EmbeddedContactPoint where
  "exampleCreated =
     \<lparr>UID = ''u9'', Name = ''ops'', Type = ''webhook'', DisableResolveMessage = False,
      Settings = [''url'' \<mapsto> JString ''http://z''],
      Provenance = ''api''\<rparr>"

definition exampleUpdate :: EmbeddedContactPoint where
  "exampleUpdate =
     \<lparr>UID = ''u1'', Name = ''ops'', Type = ''webhook'', DisableResolveMessage = True,
      Settings = [''url'' \<mapsto> JString ''http://new'', ''password'' \<mapsto> JString RedactedValue],
      Provenance = []\<rparr>"

text \<open>A configuration in which two receiver groups have the same name and both hold a
  member of the UID \<^verbatim>\<open>u1\<close>.\<close>

definition exampleTwinConfig :: PostableUserConfig where
  "exampleTwinConfig =
     \<lparr>Receivers =
        [\<lparr>Receiver_Name = ''ops'',
          GrafanaManagedReceivers =
            [\<lparr>UID = ''u1'', Name = ''ops'', Type = ''webhook'', DisableResolveMessage = False,
              Settings = [''url'' \<mapsto> JString ''http://x''],
              SecureSettings = [(''password'', ''=#hunter2'')]\<rparr>]\<rparr>,
         \<lparr>Receiver_Name = ''ops'',
          GrafanaManagedReceivers =
            [\<lparr>UID = ''u4'', Name = ''ops'', Type = ''email'', DisableResolveMessage = False,
              Settings = [''addresses'' \<mapsto> JString ''b@x.com''],
              SecureSettings = []\<rparr>,
             \<lparr>UID = ''u1'', Name = ''ops'', Type = ''email'', DisableResolveMessage = False,
              Settings = [''addresses'' \<mapsto> JString ''a@x.com''],
              SecureSettings = []\<rparr>]\<rparr>]\<rparr>"

definition exampleTwinStore :: "PostableUserConfig store" where
  "exampleTwinStore =
     \<lparr>configs = [1 \<mapsto> (exampleTwinConfig, exampleHash exampleTwinConfig)],
      provenance_records = (\<lambda>orgID. Map.empty)\<rparr>"




section \<open>Properties\<close>

lemmas example_defs = exampleService_def exampleStore_def exampleConfig_def exampleHash_def
  exampleDecode_def exampleDecrypt_def exampleSecretKeys_def
  store_GetLatest_def store_Update_def store_GetProvenances_def store_SetProvenance_def
  store_DeleteProvenance_def

lemma example_withStores: "withStores exampleHash exampleService = exampleService"
  by (simp add: withStores_def exampleService_def)

subsection \<open>The loop over the secure settings\<close>

lemma setSecureSettings_skip:
  "\<not> populated ecp v \<Longrightarrow>
     setSecureSettings ecp shown ((k, v) # kvs) j = setSecureSettings ecp shown kvs j"
  by (simp add: populated_def split: sum.splits)

lemma setSecureSettings_set:
  "decrypteValue ecp v = Inr p \<Longrightarrow> p \<noteq> [] \<Longrightarrow>
     setSecureSettings ecp shown ((k, v) # kvs) j =
     setSecureSettings ecp shown kvs (SetKey j k (JString (shown p)))"
  by simp

lemma populatedE:
  assumes "populated ecp v"
  obtains p where "decrypteValue ecp v = Inr p" and "p \<noteq> []"
  using assms by (auto simp: populated_def split: sum.splits)

lemma setSecureSettings_constant:
  "setSecureSettings ecp (\<lambda>_. c) kvs j k =
     (if \<exists>v. (k, v) \<in> set kvs \<and> populated ecp v then Some (JString c) else j k)"
proof (induction kvs arbitrary: j)
  case Nil
  then show ?case by simp
next
  case (Cons kv kvs)
  obtain k' v' where kv: "kv = (k', v')" by (cases kv)
  show ?case
  proof (cases "populated ecp v'")
    case False
    then have "setSecureSettings ecp (\<lambda>_. c) (kv # kvs) j = setSecureSettings ecp (\<lambda>_. c) kvs j"
      unfolding kv by (rule setSecureSettings_skip)
    with False show ?thesis
      unfolding kv by (auto simp: Cons.IH)
  next
    case True
    then obtain p where p: "decrypteValue ecp v' = Inr p" "p \<noteq> []" by (rule populatedE)
    show ?thesis
      unfolding kv setSecureSettings_set [OF p] Cons.IH using True
      by (auto simp: SetKey_def)
  qed
qed

subsection \<open>Listing redacts\<close>

lemma example_listing:
  "GetContactPoints exampleService 1 exampleStore =
     ([Info ''provenances'' ''map'' [''u1'' \<mapsto> ''api'']], Inr exampleListing)"
  by (simp add: GetContactPoints_def getCurrentConfig_def GetGrafanaReceiverMap_def
      listContactPoint_def decrypteValue_def SetKey_def exampleListing_def example_defs)

text \<open>
  C1. When \<open>GetContactPoints\<close> returns contact points, they are the receivers of the
  configuration, one for one, and the settings of each are the stored settings of its
  receiver except under the keys of the secure settings that hold a populated ciphertext
  (one that decodes and decrypts to a non-empty value): those keys show the sentinel
  \<open>RedactedValue\<close>. A key whose ciphertext does not decrypt, or decrypts to the empty
  string, is left as stored. So every value of the returned settings is the sentinel or
  a value of the stored plain settings: no decrypted value is part of the payload.
\<close>

theorem GetContactPoints_redacts:
  assumes "snd (GetContactPoints ecp orgID s) = Inr contactPoints"
  shows "\<exists>cfg hash. getCurrentConfig ecp orgID s = Inr (cfg, hash) \<and>
           list_all2
             (\<lambda>receiver contactPoint.
                UID contactPoint = UID receiver \<and> Name contactPoint = Name receiver \<and>
                Type contactPoint = Type receiver \<and>
                DisableResolveMessage contactPoint = DisableResolveMessage receiver \<and>
                (\<forall>k. Settings contactPoint k =
                   (if \<exists>v. (k, v) \<in> set (SecureSettings receiver) \<and> populated ecp v
                    then Some (JString RedactedValue) else Settings receiver k)) \<and>
                (\<forall>k x. Settings contactPoint k = Some x \<longrightarrow>
                   x = JString RedactedValue \<or> Settings receiver k = Some x))
             (GetGrafanaReceiverMap cfg) contactPoints"
  using assms
  by (auto simp: GetContactPoints_def listContactPoint_def setSecureSettings_constant
      list_all2_map2 list_all2_same split: sum.splits prod.splits)

theorem GetContactPoints_redacts_witness:
  "snd (GetContactPoints exampleService 1 exampleStore) = Inr exampleListing \<and>
   (\<exists>cfg hash. getCurrentConfig exampleService 1 exampleStore = Inr (cfg, hash) \<and>
      list_all2
        (\<lambda>receiver contactPoint.
           UID contactPoint = UID receiver \<and> Name contactPoint = Name receiver \<and>
           Type contactPoint = Type receiver \<and>
           DisableResolveMessage contactPoint = DisableResolveMessage receiver \<and>
           (\<forall>k. Settings contactPoint k =
              (if \<exists>v. (k, v) \<in> set (SecureSettings receiver) \<and> populated exampleService v
               then Some (JString RedactedValue) else Settings receiver k)) \<and>
           (\<forall>k x. Settings contactPoint k = Some x \<longrightarrow>
              x = JString RedactedValue \<or> Settings receiver k = Some x))
        (GetGrafanaReceiverMap cfg) exampleListing)"
proof -
  have listed: "snd (GetContactPoints exampleService 1 exampleStore) = Inr exampleListing"
    by (simp add: example_listing)
  from GetContactPoints_redacts [OF listed] listed show ?thesis
    by (rule_tac conjI)
qed

subsection \<open>Creating\<close>

lemmas create_defs = CreateContactPoint_def exampleContactPoint_def
      getCurrentConfig_def ExtractSecrtes_def encryptValue_def Get_def InTransaction_def
      addReceiver_def saveCmd_def example_defs


lemma InTransaction_cases:
  "InTransaction f s = (r, s') \<Longrightarrow>
     (\<exists>err. f s = Inl err \<and> r = Some err \<and> s' = s) \<or> (f s = Inr s' \<and> r = None)"
  by (auto simp: InTransaction_def split: sum.splits)

lemma CreateContactPoint_Inl:
  assumes "CreateContactPoint ecp orgID contactPoint provenance newUID s = (Inl err, s')"
  shows "s' = s"
  using assms unfolding CreateContactPoint_def Let_def
  by (auto split: option.splits sum.splits prod.splits dest!: InTransaction_cases)

lemma CreateContactPoint_Inr:
  assumes "CreateContactPoint ecp orgID contactPoint provenance newUID s = (Inr created, s')"
  obtains cfg fetchedHash plainSecrets stripped extracedSecrets data s1 where
    "IsValid ecp contactPoint = None"
    "getCurrentConfig ecp orgID s = Inr (cfg, fetchedHash)"
    "ExtractSecrtes ecp contactPoint = Inr (plainSecrets, stripped)"
    "encryptSecrets ecp plainSecrets = Inr extracedSecrets"
    "Marshal ecp (addReceiver
        \<lparr>UID = newUID, Name = Name stripped, Type = Type stripped,
         DisableResolveMessage = DisableResolveMessage stripped,
         Settings = Settings stripped, SecureSettings = extracedSecrets\<rparr> cfg) = Inr data"
    "UpdateAlertmanagerConfiguration ecp (saveCmd data fetchedHash orgID) s = Inr s1"
    "SetProvenance ecp orgID (stripped\<lparr>UID := newUID\<rparr>) provenance s1 = Inr s'"
    "created = stripped\<lparr>UID := newUID, Provenance := provenance\<rparr>"
  using assms unfolding CreateContactPoint_def Let_def
  by (auto split: option.splits sum.splits prod.splits dest!: InTransaction_cases)

lemma failing_create:
  "CreateContactPoint failingProvenanceService 1 exampleContactPoint ''api'' ''u9'' exampleStore =
     (Inl (StoreError ''provenance write failed''), exampleStore)"
  by (simp add: CreateContactPoint_def failingProvenanceService_def exampleContactPoint_def
      getCurrentConfig_def ExtractSecrtes_def encryptValue_def Get_def InTransaction_def
      addReceiver_def saveCmd_def example_defs)


text \<open>
  C2. \<open>CreateContactPoint\<close> saves the document and writes the provenance of the new UID
  inside one transaction. Whatever the stores do: when the creation returns an error the
  state of the stores is the state before the call (also when the document was saved and
  the provenance write failed after it), and when it returns a contact point both the
  save and the provenance write have succeeded, one after the other, and the state is
  the one they leave.
\<close>

theorem CreateContactPoint_atomic:
  assumes "CreateContactPoint ecp orgID contactPoint provenance newUID s = (result, s')"
  shows "(\<forall>err. result = Inl err \<longrightarrow> s' = s) \<and>
         (\<forall>created. result = Inr created \<longrightarrow>
            (\<exists>data fetchedHash s1.
               UpdateAlertmanagerConfiguration ecp (saveCmd data fetchedHash orgID) s = Inr s1 \<and>
               SetProvenance ecp orgID (created\<lparr>Provenance := Provenance contactPoint\<rparr>)
                 provenance s1 = Inr s' \<and>
               UID created = newUID))"
proof (intro conjI allI impI)
  fix err assume "result = Inl err"
  with assms show "s' = s" by (auto dest: CreateContactPoint_Inl)
next
  fix created assume "result = Inr created"
  with assms have "CreateContactPoint ecp orgID contactPoint provenance newUID s = (Inr created, s')"
    by simp
  then obtain cfg fetchedHash plainSecrets stripped extracedSecrets data s1 where
    ex: "ExtractSecrtes ecp contactPoint = Inr (plainSecrets, stripped)" and
    up: "UpdateAlertmanagerConfiguration ecp (saveCmd data fetchedHash orgID) s = Inr s1" and
    sp: "SetProvenance ecp orgID (stripped\<lparr>UID := newUID\<rparr>) provenance s1 = Inr s'" and
    cr: "created = stripped\<lparr>UID := newUID, Provenance := provenance\<rparr>"
    by (rule CreateContactPoint_Inr)
  from ex have "Provenance stripped = Provenance contactPoint"
    by (auto simp: ExtractSecrtes_def split: sum.splits)
  then have "created\<lparr>Provenance := Provenance contactPoint\<rparr> = stripped\<lparr>UID := newUID\<rparr>"
    unfolding cr by simp
  with up sp cr
  show "\<exists>data fetchedHash s1.
          UpdateAlertmanagerConfiguration ecp (saveCmd data fetchedHash orgID) s = Inr s1 \<and>
          SetProvenance ecp orgID (created\<lparr>Provenance := Provenance contactPoint\<rparr>)
            provenance s1 = Inr s' \<and> UID created = newUID"
    by auto
qed

theorem CreateContactPoint_atomic_witness:
  "fst (CreateContactPoint failingProvenanceService 1 exampleContactPoint ''api'' ''u9'' exampleStore)
     = Inl (StoreError ''provenance write failed'') \<and>
   snd (CreateContactPoint failingProvenanceService 1 exampleContactPoint ''api'' ''u9'' exampleStore)
     = exampleStore"
proof -
  let ?run = "CreateContactPoint failingProvenanceService 1 exampleContactPoint ''api'' ''u9'' exampleStore"
  have failed: "?run = (Inl (StoreError ''provenance write failed''), snd ?run)"
    by (simp add: failing_create)
  from CreateContactPoint_atomic [OF failed] have "snd ?run = exampleStore"
    by simp
  with failed show ?thesis
    by (metis fst_conv)
qed

lemma appendToReceivers_eq:
  "appendToReceivers grafanaReceiver receivers receiverFound =
     (map (\<lambda>receiver.
            if Receiver_Name receiver = Name grafanaReceiver
            then receiver\<lparr>GrafanaManagedReceivers :=
                   GrafanaManagedReceivers receiver @ [grafanaReceiver]\<rparr>
            else receiver) receivers,
      receiverFound \<or> (\<exists>receiver \<in> set receivers. Receiver_Name receiver = Name grafanaReceiver))"
  by (induction receivers arbitrary: receiverFound) auto

lemma addReceiver_eq:
  "addReceiver grafanaReceiver cfg =
     cfg\<lparr>Receivers :=
       map (\<lambda>receiver.
              if Receiver_Name receiver = Name grafanaReceiver
              then receiver\<lparr>GrafanaManagedReceivers :=
                     GrafanaManagedReceivers receiver @ [grafanaReceiver]\<rparr>
              else receiver) (Receivers cfg) @
       (if \<exists>receiver \<in> set (Receivers cfg). Receiver_Name receiver = Name grafanaReceiver
        then []
        else [\<lparr>Receiver_Name = Name grafanaReceiver,
               GrafanaManagedReceivers = [grafanaReceiver]\<rparr>])\<rparr>"
  by (simp add: addReceiver_def appendToReceivers_eq)

lemma ExtractSecrtes_fields:
  assumes "ExtractSecrtes ecp contactPoint = Inr (plainSecrets, stripped)"
  shows "UID stripped = UID contactPoint" "Name stripped = Name contactPoint"
    "Type stripped = Type contactPoint"
    "DisableResolveMessage stripped = DisableResolveMessage contactPoint"
    "Provenance stripped = Provenance contactPoint"
  using assms by (auto simp: ExtractSecrtes_def split: sum.splits)

lemma example_create:
  "fst (CreateContactPoint exampleService 1 exampleContactPoint ''api'' ''u9'' exampleStore) =
     Inr exampleCreated"
  by (simp add: create_defs exampleCreated_def)

lemma encryptSecrets_Inr:
  "encryptSecrets ecp kvs = Inr kvs' \<Longrightarrow>
     list_all2 (\<lambda>kv kv'. fst kv' = fst kv \<and> encryptValue ecp (snd kv) = Inr (snd kv')) kvs kvs'"
proof (induction kvs arbitrary: kvs')
  case Nil
  then show ?case by simp
next
  case (Cons kv kvs)
  obtain k v where kv: "kv = (k, v)" by (cases kv)
  from Cons.prems obtain c rest where "encryptValue ecp v = Inr c"
    "encryptSecrets ecp kvs = Inr rest" "kvs' = (k, c) # rest"
    unfolding kv by (auto split: sum.splits)
  with Cons.IH show ?case unfolding kv by simp
qed

lemma store_Update_Inr:
  assumes "store_Update H cmd s = Inr s1"
  shows "s1 = s\<lparr>configs := (configs s)(OrgID cmd \<mapsto>
           (AlertmanagerConfiguration cmd, H (AlertmanagerConfiguration cmd)))\<rparr>"
  using assms by (auto simp: store_Update_def split: option.splits if_splits)

lemma withStores_fields:
  assumes "withStores H ecp = ecp"
  shows "GetLatestAlertmanagerConfiguration ecp = store_GetLatest"
    and "UpdateAlertmanagerConfiguration ecp = store_Update H"
    and "GetProvenances ecp = store_GetProvenances"
    and "SetProvenance ecp = store_SetProvenance"
    and "DeleteProvenance ecp = store_DeleteProvenance"
proof -
  have "GetLatestAlertmanagerConfiguration (withStores H ecp) = store_GetLatest"
    "UpdateAlertmanagerConfiguration (withStores H ecp) = store_Update H"
    "GetProvenances (withStores H ecp) = store_GetProvenances"
    "SetProvenance (withStores H ecp) = store_SetProvenance"
    "DeleteProvenance (withStores H ecp) = store_DeleteProvenance"
    by (simp_all add: withStores_def)
  then show "GetLatestAlertmanagerConfiguration ecp = store_GetLatest"
    and "UpdateAlertmanagerConfiguration ecp = store_Update H"
    and "GetProvenances ecp = store_GetProvenances"
    and "SetProvenance ecp = store_SetProvenance"
    and "DeleteProvenance ecp = store_DeleteProvenance"
    unfolding assms by simp_all
qed

text \<open>Everything a successful creation has computed, with the receiver it appends written
  out in terms of the contact point.\<close>

lemma CreateContactPoint_saved:
  assumes "CreateContactPoint ecp orgID contactPoint provenance newUID s = (Inr created, s')"
  obtains cfg fetchedHash secretKeys extracedSecrets data s1 where
    "getCurrentConfig ecp orgID s = Inr (cfg, fetchedHash)"
    "SecretKeys ecp (Type contactPoint) = Inr secretKeys"
    "list_all2 (\<lambda>secretKey kv. fst kv = secretKey \<and>
        encryptValue ecp (MustString (Get (Settings contactPoint) secretKey)) = Inr (snd kv))
      secretKeys extracedSecrets"
    "Marshal ecp (addReceiver
        \<lparr>UID = newUID, Name = Name contactPoint, Type = Type contactPoint,
         DisableResolveMessage = DisableResolveMessage contactPoint,
         Settings = Settings contactPoint |` (- set secretKeys),
         SecureSettings = extracedSecrets\<rparr> cfg) = Inr data"
    "UpdateAlertmanagerConfiguration ecp (saveCmd data fetchedHash orgID) s = Inr s1"
    "SetProvenance ecp orgID (created\<lparr>Provenance := Provenance contactPoint\<rparr>) provenance s1 = Inr s'"
    "created = contactPoint\<lparr>UID := newUID, Settings := Settings contactPoint |` (- set secretKeys),
        Provenance := provenance\<rparr>"
proof -
  from assms obtain cfg fetchedHash plainSecrets stripped extracedSecrets data s1 where
    cur: "getCurrentConfig ecp orgID s = Inr (cfg, fetchedHash)" and
    ex: "ExtractSecrtes ecp contactPoint = Inr (plainSecrets, stripped)" and
    en: "encryptSecrets ecp plainSecrets = Inr extracedSecrets" and
    ma: "Marshal ecp (addReceiver
        \<lparr>UID = newUID, Name = Name stripped, Type = Type stripped,
         DisableResolveMessage = DisableResolveMessage stripped,
         Settings = Settings stripped, SecureSettings = extracedSecrets\<rparr> cfg) = Inr data" and
    up: "UpdateAlertmanagerConfiguration ecp (saveCmd data fetchedHash orgID) s = Inr s1" and
    sp: "SetProvenance ecp orgID (stripped\<lparr>UID := newUID\<rparr>) provenance s1 = Inr s'" and
    cr: "created = stripped\<lparr>UID := newUID, Provenance := provenance\<rparr>"
    by (rule CreateContactPoint_Inr)
  from ex obtain secretKeys where
    keys: "SecretKeys ecp (Type contactPoint) = Inr secretKeys" and
    plain: "plainSecrets =
      map (\<lambda>secretKey. (secretKey, MustString (Get (Settings contactPoint) secretKey))) secretKeys" and
    stripped: "stripped = contactPoint\<lparr>Settings := Settings contactPoint |` (- set secretKeys)\<rparr>"
    by (auto simp: ExtractSecrtes_def split: sum.splits)
  have secrets: "list_all2 (\<lambda>secretKey kv. fst kv = secretKey \<and>
        encryptValue ecp (MustString (Get (Settings contactPoint) secretKey)) = Inr (snd kv))
      secretKeys extracedSecrets"
    using encryptSecrets_Inr [OF en] unfolding plain by (simp add: list_all2_map1)
  have ma': "Marshal ecp (addReceiver
        \<lparr>UID = newUID, Name = Name contactPoint, Type = Type contactPoint,
         DisableResolveMessage = DisableResolveMessage contactPoint,
         Settings = Settings contactPoint |` (- set secretKeys),
         SecureSettings = extracedSecrets\<rparr> cfg) = Inr data"
    using ma unfolding stripped by simp
  have sp': "SetProvenance ecp orgID (created\<lparr>Provenance := Provenance contactPoint\<rparr>) provenance s1 = Inr s'"
    using sp unfolding cr stripped by simp
  have cr': "created = contactPoint\<lparr>UID := newUID,
        Settings := Settings contactPoint |` (- set secretKeys), Provenance := provenance\<rparr>"
    unfolding cr stripped by simp
  from cur keys secrets ma' up sp' cr' show ?thesis by (rule that)
qed


lemma example_created_document:
  "map_option (\<lambda>stored. map (\<lambda>receiver. (Receiver_Name receiver,
       map UID (GrafanaManagedReceivers receiver))) (Receivers (fst stored)))
     (configs (snd (CreateContactPoint exampleService 1 exampleContactPoint ''api'' ''u9''
        exampleStore)) 1) =
   Some [(''ops'', [''u1'', ''u2'', ''u9'']), (''dev'', [''u3''])]"
  by (simp add: create_defs)

text \<open>
  C6. A successful \<open>CreateContactPoint\<close> saves, and then records the provenance of, the
  configuration it read with the new receiver appended to the members of every receiver
  group whose name is the contact point's name, every other group unchanged and in
  place; when no group has that name, exactly one new group of that name, holding only
  the new receiver, is appended after the existing groups. The new receiver has the
  generated UID, the name, type and flag of the contact point, its settings without the
  secret keys of its type, and under each secret key the encrypted value submitted under
  it. The state the creation leaves is the state the provenance write leaves after that
  save; over the stores of the model (\<open>withStores H ecp = ecp\<close>) it is the state before
  with this document stored for the organisation and the provenance recorded for the new
  UID.
\<close>

theorem CreateContactPoint_appends:
  assumes "CreateContactPoint ecp orgID contactPoint provenance newUID s = (Inr created, s')"
  shows "\<exists>cfg fetchedHash secretKeys extracedSecrets grafanaReceiver data s1.
           getCurrentConfig ecp orgID s = Inr (cfg, fetchedHash) \<and>
           SecretKeys ecp (Type contactPoint) = Inr secretKeys \<and>
           list_all2 (\<lambda>secretKey kv. fst kv = secretKey \<and>
               encryptValue ecp (MustString (Get (Settings contactPoint) secretKey)) = Inr (snd kv))
             secretKeys extracedSecrets \<and>
           grafanaReceiver =
             \<lparr>UID = newUID, Name = Name contactPoint, Type = Type contactPoint,
              DisableResolveMessage = DisableResolveMessage contactPoint,
              Settings = Settings contactPoint |` (- set secretKeys),
              SecureSettings = extracedSecrets\<rparr> \<and>
           Marshal ecp
             (cfg\<lparr>Receivers :=
                map (\<lambda>receiver.
                       if Receiver_Name receiver = Name contactPoint
                       then receiver\<lparr>GrafanaManagedReceivers :=
                              GrafanaManagedReceivers receiver @ [grafanaReceiver]\<rparr>
                       else receiver) (Receivers cfg) @
                (if \<exists>receiver \<in> set (Receivers cfg). Receiver_Name receiver = Name contactPoint
                 then []
                 else [\<lparr>Receiver_Name = Name contactPoint,
                        GrafanaManagedReceivers = [grafanaReceiver]\<rparr>])\<rparr>) = Inr data \<and>
           UpdateAlertmanagerConfiguration ecp (saveCmd data fetchedHash orgID) s = Inr s1 \<and>
           SetProvenance ecp orgID (created\<lparr>Provenance := Provenance contactPoint\<rparr>) provenance s1 = Inr s' \<and>
           (withStores H ecp = ecp \<longrightarrow>
              s' = s\<lparr>configs := (configs s)(orgID \<mapsto> (data, H data)),
                       provenance_records := (provenance_records s)
                         (orgID := (provenance_records s orgID)(newUID \<mapsto> provenance))\<rparr>)"
proof -
  from assms obtain cfg fetchedHash secretKeys extracedSecrets data s1 where
    cur: "getCurrentConfig ecp orgID s = Inr (cfg, fetchedHash)" and
    keys: "SecretKeys ecp (Type contactPoint) = Inr secretKeys" and
    secrets: "list_all2 (\<lambda>secretKey kv. fst kv = secretKey \<and>
        encryptValue ecp (MustString (Get (Settings contactPoint) secretKey)) = Inr (snd kv))
      secretKeys extracedSecrets" and
    ma: "Marshal ecp (addReceiver
        \<lparr>UID = newUID, Name = Name contactPoint, Type = Type contactPoint,
         DisableResolveMessage = DisableResolveMessage contactPoint,
         Settings = Settings contactPoint |` (- set secretKeys),
         SecureSettings = extracedSecrets\<rparr> cfg) = Inr data" and
    up: "UpdateAlertmanagerConfiguration ecp (saveCmd data fetchedHash orgID) s = Inr s1" and
    sp: "SetProvenance ecp orgID (created\<lparr>Provenance := Provenance contactPoint\<rparr>) provenance s1 = Inr s'" and
    cr: "created = contactPoint\<lparr>UID := newUID,
        Settings := Settings contactPoint |` (- set secretKeys), Provenance := provenance\<rparr>"
    by (rule CreateContactPoint_saved)
  let ?gr = "\<lparr>UID = newUID, Name = Name contactPoint, Type = Type contactPoint,
         DisableResolveMessage = DisableResolveMessage contactPoint,
         Settings = Settings contactPoint |` (- set secretKeys),
         SecureSettings = extracedSecrets\<rparr>"
  have cfg_eq: "addReceiver ?gr cfg =
             cfg\<lparr>Receivers :=
                map (\<lambda>receiver.
                       if Receiver_Name receiver = Name contactPoint
                       then receiver\<lparr>GrafanaManagedReceivers :=
                              GrafanaManagedReceivers receiver @ [?gr]\<rparr>
                       else receiver) (Receivers cfg) @
                (if \<exists>receiver \<in> set (Receivers cfg). Receiver_Name receiver = Name contactPoint
                 then []
                 else [\<lparr>Receiver_Name = Name contactPoint,
                        GrafanaManagedReceivers = [?gr]\<rparr>])\<rparr>"
    by (simp add: addReceiver_eq)
  note ma' = ma [unfolded cfg_eq]
  have model: "withStores H ecp = ecp \<longrightarrow>
              s' = s\<lparr>configs := (configs s)(orgID \<mapsto> (data, H data)),
                       provenance_records := (provenance_records s)
                         (orgID := (provenance_records s orgID)(newUID \<mapsto> provenance))\<rparr>"
  proof
    assume stores: "withStores H ecp = ecp"
    from up have "s1 = s\<lparr>configs := (configs s)(orgID \<mapsto> (data, H data))\<rparr>"
      unfolding withStores_fields [OF stores] by (auto dest: store_Update_Inr simp: saveCmd_def)
    moreover from sp have "s' = s1\<lparr>provenance_records := (provenance_records s1)
        (orgID := (provenance_records s1 orgID)(newUID \<mapsto> provenance))\<rparr>"
      unfolding withStores_fields [OF stores] cr by (simp add: store_SetProvenance_def)
    ultimately show "s' = s\<lparr>configs := (configs s)(orgID \<mapsto> (data, H data)),
                       provenance_records := (provenance_records s)
                         (orgID := (provenance_records s orgID)(newUID \<mapsto> provenance))\<rparr>"
      by simp
  qed
  have refl: "?gr = ?gr" ..
  show ?thesis
    apply (rule exI [of _ cfg], rule exI [of _ fetchedHash], rule exI [of _ secretKeys])
    apply (rule exI [of _ extracedSecrets], rule exI [of _ ?gr])
    apply (rule exI [of _ data], rule exI [of _ s1])
    using cur keys secrets refl ma' up sp model by (intro conjI)
qed

theorem CreateContactPoint_appends_witness:
  "CreateContactPoint exampleService 1 exampleContactPoint ''api'' ''u9'' exampleStore =
     (Inr exampleCreated,
      snd (CreateContactPoint exampleService 1 exampleContactPoint ''api'' ''u9'' exampleStore)) \<and>
   withStores exampleHash exampleService = exampleService \<and>
   map_option (\<lambda>stored. map (\<lambda>receiver. (Receiver_Name receiver,
       map UID (GrafanaManagedReceivers receiver))) (Receivers (fst stored)))
     (configs (snd (CreateContactPoint exampleService 1 exampleContactPoint ''api'' ''u9''
        exampleStore)) 1) =
     Some [(''ops'', [''u1'', ''u2'', ''u9'']), (''dev'', [''u3''])] \<and>
   (\<exists>cfg fetchedHash secretKeys extracedSecrets grafanaReceiver data s1.
           getCurrentConfig exampleService 1 exampleStore = Inr (cfg, fetchedHash) \<and>
           SecretKeys exampleService (Type exampleContactPoint) = Inr secretKeys \<and>
           list_all2 (\<lambda>secretKey kv. fst kv = secretKey \<and>
               encryptValue exampleService (MustString (Get (Settings exampleContactPoint) secretKey)) = Inr (snd kv))
             secretKeys extracedSecrets \<and>
           grafanaReceiver =
             \<lparr>UID = ''u9'', Name = Name exampleContactPoint, Type = Type exampleContactPoint,
              DisableResolveMessage = DisableResolveMessage exampleContactPoint,
              Settings = Settings exampleContactPoint |` (- set secretKeys),
              SecureSettings = extracedSecrets\<rparr> \<and>
           Marshal exampleService
             (cfg\<lparr>Receivers :=
                map (\<lambda>receiver.
                       if Receiver_Name receiver = Name exampleContactPoint
                       then receiver\<lparr>GrafanaManagedReceivers :=
                              GrafanaManagedReceivers receiver @ [grafanaReceiver]\<rparr>
                       else receiver) (Receivers cfg) @
                (if \<exists>receiver \<in> set (Receivers cfg). Receiver_Name receiver = Name exampleContactPoint
                 then []
                 else [\<lparr>Receiver_Name = Name exampleContactPoint,
                        GrafanaManagedReceivers = [grafanaReceiver]\<rparr>])\<rparr>) = Inr data \<and>
           UpdateAlertmanagerConfiguration exampleService (saveCmd data fetchedHash 1) exampleStore = Inr s1 \<and>
           SetProvenance exampleService 1 (exampleCreated\<lparr>Provenance := Provenance exampleContactPoint\<rparr>) ''api'' s1 = Inr (snd (CreateContactPoint exampleService 1 exampleContactPoint ''api'' ''u9'' exampleStore)) \<and>
           (withStores exampleHash exampleService = exampleService \<longrightarrow>
              (snd (CreateContactPoint exampleService 1 exampleContactPoint ''api'' ''u9'' exampleStore)) = exampleStore\<lparr>configs := (configs exampleStore)(1 \<mapsto> (data, exampleHash data)),
                       provenance_records := (provenance_records exampleStore)
                         (1 := (provenance_records exampleStore 1)(''u9'' \<mapsto> ''api''))\<rparr>))"
proof -
  let ?run = "CreateContactPoint exampleService 1 exampleContactPoint ''api'' ''u9'' exampleStore"
  have created: "?run = (Inr exampleCreated, snd ?run)"
    using example_create by (simp add: prod_eq_iff)
  from CreateContactPoint_appends [OF created, of exampleHash]
  show ?thesis
    by (intro conjI) (rule created, rule example_withStores, rule example_created_document)
qed

subsection \<open>Updating\<close>

lemma UpdateContactPoint_Some:
  assumes "UpdateContactPoint ecp orgID contactPoint s = (Some err, s')"
  shows "s' = s"
  using assms unfolding UpdateContactPoint_def Let_def
  by (auto split: option.splits sum.splits prod.splits)

lemma UpdateContactPoint_None:
  assumes "UpdateContactPoint ecp orgID contactPoint s = (None, s')"
  obtains raw secretKeys plainSecrets stripped extracedSecrets cfg fetchedHash receivers data where
    "getContactPointUncrypted ecp orgID (UID contactPoint) s = Inr raw"
    "SecretKeys ecp (Type contactPoint) = Inr secretKeys"
    "IsValid ecp (mergeRedacted raw secretKeys contactPoint) = None"
    "ExtractSecrtes ecp (mergeRedacted raw secretKeys contactPoint) = Inr (plainSecrets, stripped)"
    "encryptSecrets ecp plainSecrets = Inr extracedSecrets"
    "getCurrentConfig ecp orgID s = Inr (cfg, fetchedHash)"
    "replaceInReceivers
       \<lparr>UID = UID stripped, Name = Name stripped, Type = Type stripped,
        DisableResolveMessage = DisableResolveMessage stripped,
        Settings = Settings stripped, SecureSettings = extracedSecrets\<rparr>
       (Receivers cfg) = Inr receivers"
    "Marshal ecp (cfg\<lparr>Receivers := receivers\<rparr>) = Inr data"
    "UpdateAlertmanagerConfiguration ecp (saveCmd data fetchedHash orgID) s = Inr s'"
  using assms unfolding UpdateContactPoint_def Let_def
  by (auto split: option.splits sum.splits prod.splits)

lemma mergeRedacted_fields:
  "UID (mergeRedacted raw secretKeys contactPoint) = UID contactPoint"
  "Name (mergeRedacted raw secretKeys contactPoint) = Name contactPoint"
  "Type (mergeRedacted raw secretKeys contactPoint) = Type contactPoint"
  "DisableResolveMessage (mergeRedacted raw secretKeys contactPoint) = DisableResolveMessage contactPoint"
  "Provenance (mergeRedacted raw secretKeys contactPoint) = Provenance contactPoint"
  by (induction secretKeys arbitrary: contactPoint; simp add: Let_def)+

lemma replaceMember_Some:
  assumes "replaceMember mergedReceiver members = Some members'"
  shows "\<exists>j < length members.
           UID (members ! j) = UID mergedReceiver \<and>
           (\<forall>j' < j. UID (members ! j') \<noteq> UID mergedReceiver) \<and>
           members' = members[j := mergedReceiver]"
  using assms
proof (induction members arbitrary: members')
  case Nil
  then show ?case by simp
next
  case (Cons g gs)
  show ?case
  proof (cases "UID g = UID mergedReceiver")
    case True
    with Cons.prems have "members' = (g # gs)[0 := mergedReceiver]" by simp
    with True show ?thesis by (intro exI [of _ 0]) simp
  next
    case False
    with Cons.prems obtain rest' where r: "replaceMember mergedReceiver gs = Some rest'"
      and m: "members' = g # rest'"
      by (auto split: option.splits)
    from Cons.IH [OF r] obtain j where j: "j < length gs" "UID (gs ! j) = UID mergedReceiver"
      "\<forall>j' < j. UID (gs ! j') \<noteq> UID mergedReceiver" "rest' = gs[j := mergedReceiver]"
      by blast
    show ?thesis
    proof (intro exI [of _ "Suc j"] conjI allI impI)
      show "Suc j < length (g # gs)" using j by simp
      show "UID ((g # gs) ! Suc j) = UID mergedReceiver" using j by simp
      show "members' = (g # gs)[Suc j := mergedReceiver]" using j m by simp
      fix j' assume "j' < Suc j"
      then show "UID ((g # gs) ! j') \<noteq> UID mergedReceiver"
        using j False by (cases j') auto
    qed
  qed
qed

lemma replaceMember_None:
  "replaceMember mergedReceiver members = None \<longleftrightarrow>
     (\<forall>r \<in> set members. UID r \<noteq> UID mergedReceiver)"
  by (induction members) (auto split: option.splits)

lemma replaceInReceivers_Inr:
  assumes "replaceInReceivers mergedReceiver receivers = Inr receivers'"
  shows "length receivers' = length receivers \<and>
         (\<forall>i < length receivers.
            Receiver_Name (receivers' ! i) = Receiver_Name (receivers ! i) \<and>
            (if Receiver_Name (receivers ! i) = Name mergedReceiver
             then \<exists>j < length (GrafanaManagedReceivers (receivers ! i)).
                    UID (GrafanaManagedReceivers (receivers ! i) ! j) = UID mergedReceiver \<and>
                    (\<forall>j' < j. UID (GrafanaManagedReceivers (receivers ! i) ! j') \<noteq> UID mergedReceiver) \<and>
                    receivers' ! i = (receivers ! i)\<lparr>GrafanaManagedReceivers :=
                      (GrafanaManagedReceivers (receivers ! i))[j := mergedReceiver]\<rparr>
             else receivers' ! i = receivers ! i))"
  using assms
proof (induction receivers arbitrary: receivers')
  case Nil
  then show ?case by simp
next
  case (Cons r rs)
  from Cons.prems obtain rest' where rest: "replaceInReceivers mergedReceiver rs = Inr rest'"
    by (auto split: if_splits option.splits sum.splits)
  note IH = Cons.IH [OF rest]
  show ?case
  proof (cases "Receiver_Name r = Name mergedReceiver")
    case True
    with Cons.prems rest obtain members where
      mem: "replaceMember mergedReceiver (GrafanaManagedReceivers r) = Some members"
      and res: "receivers' = r\<lparr>GrafanaManagedReceivers := members\<rparr> # rest'"
      by (auto split: option.splits)
    from replaceMember_Some [OF mem] obtain j where
      j: "j < length (GrafanaManagedReceivers r)"
         "UID (GrafanaManagedReceivers r ! j) = UID mergedReceiver"
         "\<forall>j' < j. UID (GrafanaManagedReceivers r ! j') \<noteq> UID mergedReceiver"
         "members = (GrafanaManagedReceivers r)[j := mergedReceiver]"
      by blast
    show ?thesis
    proof (intro conjI allI impI)
      show "length receivers' = length (r # rs)" using IH res by simp
      fix i assume i: "i < length (r # rs)"
      show "Receiver_Name (receivers' ! i) = Receiver_Name ((r # rs) ! i)"
        using IH res i by (cases i) auto
      show "if Receiver_Name ((r # rs) ! i) = Name mergedReceiver
         then \<exists>j<length (GrafanaManagedReceivers ((r # rs) ! i)).
                 UID (GrafanaManagedReceivers ((r # rs) ! i) ! j) = UID mergedReceiver \<and>
                 (\<forall>j'<j. UID (GrafanaManagedReceivers ((r # rs) ! i) ! j') \<noteq> UID mergedReceiver) \<and>
                 receivers' ! i = ((r # rs) ! i)\<lparr>GrafanaManagedReceivers :=
                       (GrafanaManagedReceivers ((r # rs) ! i))[j := mergedReceiver]\<rparr>
         else receivers' ! i = (r # rs) ! i"
      proof (cases i)
        case 0
        with True j res show ?thesis by auto
      next
        case (Suc n)
        with i have "n < length rs" by simp
        with IH have "if Receiver_Name (rs ! n) = Name mergedReceiver
             then \<exists>j < length (GrafanaManagedReceivers (rs ! n)).
                    UID (GrafanaManagedReceivers (rs ! n) ! j) = UID mergedReceiver \<and>
                    (\<forall>j' < j. UID (GrafanaManagedReceivers (rs ! n) ! j') \<noteq> UID mergedReceiver) \<and>
                    rest' ! n = (rs ! n)\<lparr>GrafanaManagedReceivers :=
                      (GrafanaManagedReceivers (rs ! n))[j := mergedReceiver]\<rparr>
             else rest' ! n = rs ! n" by blast
        with Suc res show ?thesis by simp
      qed
    qed
  next
    case False
    with Cons.prems rest have res: "receivers' = r # rest'"
      by (auto split: option.splits)
    show ?thesis
    proof (intro conjI allI impI)
      show "length receivers' = length (r # rs)" using IH res by simp
      fix i assume i: "i < length (r # rs)"
      show "Receiver_Name (receivers' ! i) = Receiver_Name ((r # rs) ! i)"
        using IH res i by (cases i) auto
      show "if Receiver_Name ((r # rs) ! i) = Name mergedReceiver
         then \<exists>j<length (GrafanaManagedReceivers ((r # rs) ! i)).
                 UID (GrafanaManagedReceivers ((r # rs) ! i) ! j) = UID mergedReceiver \<and>
                 (\<forall>j'<j. UID (GrafanaManagedReceivers ((r # rs) ! i) ! j') \<noteq> UID mergedReceiver) \<and>
                 receivers' ! i = ((r # rs) ! i)\<lparr>GrafanaManagedReceivers :=
                       (GrafanaManagedReceivers ((r # rs) ! i))[j := mergedReceiver]\<rparr>
         else receivers' ! i = (r # rs) ! i"
      proof (cases i)
        case 0
        with False res show ?thesis by auto
      next
        case (Suc n)
        with i have "n < length rs" by simp
        with IH have "if Receiver_Name (rs ! n) = Name mergedReceiver
             then \<exists>j < length (GrafanaManagedReceivers (rs ! n)).
                    UID (GrafanaManagedReceivers (rs ! n) ! j) = UID mergedReceiver \<and>
                    (\<forall>j' < j. UID (GrafanaManagedReceivers (rs ! n) ! j') \<noteq> UID mergedReceiver) \<and>
                    rest' ! n = (rs ! n)\<lparr>GrafanaManagedReceivers :=
                      (GrafanaManagedReceivers (rs ! n))[j := mergedReceiver]\<rparr>
             else rest' ! n = rs ! n" by blast
        with Suc res show ?thesis by simp
      qed
    qed
  qed
qed


lemma encryptValue_provenance_free:
  "encryptValue (ecp\<lparr>GetProvenances := gp, SetProvenance := sp, DeleteProvenance := dp\<rparr>) =
     encryptValue ecp"
  by (rule ext) (simp add: encryptValue_def cong: sum.case_cong)

lemma decrypteValue_provenance_free:
  "decrypteValue (ecp\<lparr>GetProvenances := gp, SetProvenance := sp, DeleteProvenance := dp\<rparr>) =
     decrypteValue ecp"
  by (rule ext) (simp add: decrypteValue_def cong: sum.case_cong)

lemma encryptSecrets_provenance_free:
  "encryptSecrets (ecp\<lparr>GetProvenances := gp, SetProvenance := sp, DeleteProvenance := dp\<rparr>) kvs =
     encryptSecrets ecp kvs"
  by (induction kvs) (auto simp: encryptValue_provenance_free cong: sum.case_cong)

lemma setSecureSettings_provenance_free:
  "setSecureSettings (ecp\<lparr>GetProvenances := gp, SetProvenance := sp, DeleteProvenance := dp\<rparr>) shown kvs j =
     setSecureSettings ecp shown kvs j"
  by (induction kvs arbitrary: j) (auto simp: decrypteValue_provenance_free split: sum.splits)

lemma getCurrentConfig_provenance_free:
  "getCurrentConfig (ecp\<lparr>GetProvenances := gp, SetProvenance := sp, DeleteProvenance := dp\<rparr>) =
     getCurrentConfig ecp"
  by (intro ext) (simp add: getCurrentConfig_def cong: sum.case_cong prod.case_cong)

lemma getContactPointUncrypted_provenance_free:
  "getContactPointUncrypted (ecp\<lparr>GetProvenances := gp, SetProvenance := sp, DeleteProvenance := dp\<rparr>) =
     getContactPointUncrypted ecp"
  by (intro ext) (simp add: getContactPointUncrypted_def getCurrentConfig_provenance_free
      uncryptedContactPoint_def setSecureSettings_provenance_free
      cong: sum.case_cong prod.case_cong option.case_cong)

lemma ExtractSecrtes_provenance_free:
  "ExtractSecrtes (ecp\<lparr>GetProvenances := gp, SetProvenance := sp, DeleteProvenance := dp\<rparr>) =
     ExtractSecrtes ecp"
  by (intro ext) (simp add: ExtractSecrtes_def cong: sum.case_cong)

lemma UpdateContactPoint_provenance_free:
  "UpdateContactPoint (ecp\<lparr>GetProvenances := gp, SetProvenance := sp, DeleteProvenance := dp\<rparr>)
     orgID contactPoint s = UpdateContactPoint ecp orgID contactPoint s"
  by (simp add: UpdateContactPoint_def getContactPointUncrypted_provenance_free
      getCurrentConfig_provenance_free ExtractSecrtes_provenance_free
      encryptSecrets_provenance_free
      cong: sum.case_cong prod.case_cong option.case_cong)

lemmas update_defs = UpdateContactPoint_def getContactPointUncrypted_def uncryptedContactPoint_def
  getCurrentConfig_def GetGrafanaReceiverMap_def decrypteValue_def encryptValue_def
  ExtractSecrtes_def Get_def SetKey_def saveCmd_def RedactedValue_def example_defs

lemma example_update:
  "fst (UpdateContactPoint exampleService 1 exampleUpdate exampleStore) = None"
  by (simp add: update_defs exampleUpdate_def)

lemma Get_SetKey: "Get (SetKey j a v) k = (if k = a then v else Get j k)"
  by (simp add: Get_def SetKey_def)

lemma mergeRedacted_other:
  "k \<notin> set secretKeys \<Longrightarrow>
     Settings (mergeRedacted raw secretKeys contactPoint) k = Settings contactPoint k"
  by (induction secretKeys arbitrary: contactPoint) (auto simp: Let_def SetKey_def)

lemma mergeRedacted_value:
  "MustString (Get (Settings (mergeRedacted raw secretKeys contactPoint)) k) =
     (if k \<in> set secretKeys \<and> MustString (Get (Settings contactPoint) k) = RedactedValue
      then MustString (Get (Settings raw) k)
      else MustString (Get (Settings contactPoint) k))"
proof (induction secretKeys arbitrary: contactPoint)
  case Nil
  then show ?case by simp
next
  case (Cons a rest)
  show ?case
  proof (cases "MustString (Get (Settings contactPoint) a) = RedactedValue")
    case False
    then have "mergeRedacted raw (a # rest) contactPoint = mergeRedacted raw rest contactPoint"
      by (simp add: Let_def)
    with False show ?thesis by (auto simp: Cons.IH)
  next
    case True
    let ?cp = "contactPoint\<lparr>Settings := SetKey (Settings contactPoint) a
                    (JString (MustString (Get (Settings raw) a)))\<rparr>"
    from True have step: "mergeRedacted raw (a # rest) contactPoint = mergeRedacted raw rest ?cp"
      by (simp add: Let_def)
    show ?thesis
      unfolding step Cons.IH using True by (auto simp: Get_SetKey)
  qed
qed

lemma mergeRedacted_restrict:
  "Settings (mergeRedacted raw secretKeys contactPoint) |` (- set secretKeys) =
     Settings contactPoint |` (- set secretKeys)"
  by (rule ext) (simp add: restrict_map_def mergeRedacted_other)


text \<open>Everything a successful update has computed, with the merged receiver written out
  in terms of the contact point and of the unredacted contact point read first.\<close>

lemma UpdateContactPoint_saved:
  assumes "UpdateContactPoint ecp orgID contactPoint s = (None, s')"
  obtains raw secretKeys extracedSecrets cfg fetchedHash receivers data where
    "getContactPointUncrypted ecp orgID (UID contactPoint) s = Inr raw"
    "SecretKeys ecp (Type contactPoint) = Inr secretKeys"
    "IsValid ecp (mergeRedacted raw secretKeys contactPoint) = None"
    "list_all2 (\<lambda>secretKey kv. fst kv = secretKey \<and>
        encryptValue ecp
          (if MustString (Get (Settings contactPoint) secretKey) = RedactedValue
           then MustString (Get (Settings raw) secretKey)
           else MustString (Get (Settings contactPoint) secretKey)) = Inr (snd kv))
      secretKeys extracedSecrets"
    "getCurrentConfig ecp orgID s = Inr (cfg, fetchedHash)"
    "replaceInReceivers
       \<lparr>UID = UID contactPoint, Name = Name contactPoint, Type = Type contactPoint,
        DisableResolveMessage = DisableResolveMessage contactPoint,
        Settings = Settings contactPoint |` (- set secretKeys),
        SecureSettings = extracedSecrets\<rparr>
       (Receivers cfg) = Inr receivers"
    "Marshal ecp (cfg\<lparr>Receivers := receivers\<rparr>) = Inr data"
    "UpdateAlertmanagerConfiguration ecp (saveCmd data fetchedHash orgID) s = Inr s'"
proof -
  from assms obtain raw secretKeys plainSecrets stripped extracedSecrets cfg fetchedHash receivers data
    where raw: "getContactPointUncrypted ecp orgID (UID contactPoint) s = Inr raw"
      and keys: "SecretKeys ecp (Type contactPoint) = Inr secretKeys"
      and valid: "IsValid ecp (mergeRedacted raw secretKeys contactPoint) = None"
      and ex: "ExtractSecrtes ecp (mergeRedacted raw secretKeys contactPoint) = Inr (plainSecrets, stripped)"
      and en: "encryptSecrets ecp plainSecrets = Inr extracedSecrets"
      and cur: "getCurrentConfig ecp orgID s = Inr (cfg, fetchedHash)"
      and rep: "replaceInReceivers
         \<lparr>UID = UID stripped, Name = Name stripped, Type = Type stripped,
          DisableResolveMessage = DisableResolveMessage stripped,
          Settings = Settings stripped, SecureSettings = extracedSecrets\<rparr>
         (Receivers cfg) = Inr receivers"
      and ma: "Marshal ecp (cfg\<lparr>Receivers := receivers\<rparr>) = Inr data"
      and up: "UpdateAlertmanagerConfiguration ecp (saveCmd data fetchedHash orgID) s = Inr s'"
    by (rule UpdateContactPoint_None)
  let ?merged = "mergeRedacted raw secretKeys contactPoint"
  from ex keys have plain: "plainSecrets =
      map (\<lambda>secretKey. (secretKey, MustString (Get (Settings ?merged) secretKey))) secretKeys"
    and stripped: "stripped = ?merged\<lparr>Settings := Settings ?merged |` (- set secretKeys)\<rparr>"
    by (auto simp: ExtractSecrtes_def mergeRedacted_fields split: sum.splits)
  have "list_all2 (\<lambda>secretKey kv. fst kv = secretKey \<and>
        encryptValue ecp (MustString (Get (Settings ?merged) secretKey)) = Inr (snd kv))
      secretKeys extracedSecrets"
    using encryptSecrets_Inr [OF en] unfolding plain by (simp add: list_all2_map1)
  then have secrets: "list_all2 (\<lambda>secretKey kv. fst kv = secretKey \<and>
        encryptValue ecp
          (if MustString (Get (Settings contactPoint) secretKey) = RedactedValue
           then MustString (Get (Settings raw) secretKey)
           else MustString (Get (Settings contactPoint) secretKey)) = Inr (snd kv))
      secretKeys extracedSecrets"
    by (rule list.rel_mono_strong) (auto simp: mergeRedacted_value split: if_splits)
  have "\<lparr>UID = UID stripped, Name = Name stripped, Type = Type stripped,
          DisableResolveMessage = DisableResolveMessage stripped,
          Settings = Settings stripped, SecureSettings = extracedSecrets\<rparr> =
        \<lparr>UID = UID contactPoint, Name = Name contactPoint, Type = Type contactPoint,
          DisableResolveMessage = DisableResolveMessage contactPoint,
          Settings = Settings contactPoint |` (- set secretKeys),
          SecureSettings = extracedSecrets\<rparr>"
    unfolding stripped by (simp add: mergeRedacted_fields mergeRedacted_restrict)
  with rep have rep': "replaceInReceivers
       \<lparr>UID = UID contactPoint, Name = Name contactPoint, Type = Type contactPoint,
        DisableResolveMessage = DisableResolveMessage contactPoint,
        Settings = Settings contactPoint |` (- set secretKeys),
        SecureSettings = extracedSecrets\<rparr>
       (Receivers cfg) = Inr receivers"
    by simp
  from raw keys valid secrets cur rep' ma up show ?thesis by (rule that)
qed


lemma example_updated_document:
  "map_option (\<lambda>stored. map (\<lambda>receiver. (Receiver_Name receiver,
       map (\<lambda>member. (UID member, DisableResolveMessage member, Settings member ''url''))
         (GrafanaManagedReceivers receiver))) (Receivers (fst stored)))
     (configs (snd (UpdateContactPoint exampleService 1 exampleUpdate exampleStore)) 1) =
   Some [(''ops'', [(''u1'', True, Some (JString ''http://new'')),
                    (''u2'', True, Some (JString ''http://y''))]),
         (''dev'', [(''u3'', False, None)])]"
  by (simp add: update_defs exampleUpdate_def)

text \<open>
  A successful update need not replace a member, nor leave every other group alone. In
  the example configuration the UID \<^verbatim>\<open>u1\<close> is a member of the group
  \<^verbatim>\<open>ops\<close>; updated under the name \<^verbatim>\<open>nobody\<close> of no group, the update returns
  no error and the stores are as before: no member was replaced. And where two groups
  have the contact point's name and both hold the UID, the update rewrites the member in
  both of them.
\<close>

theorem UpdateContactPoint_in_place_counterexample:
  "UpdateContactPoint exampleService 1 (exampleUpdate\<lparr>Name := ''nobody''\<rparr>) exampleStore =
     (None, exampleStore) \<and>
   map_option (\<lambda>stored. map (\<lambda>receiver. (Receiver_Name receiver,
       map (\<lambda>member. (UID member, Type member)) (GrafanaManagedReceivers receiver)))
         (Receivers (fst stored)))
     (configs exampleStore 1) =
     Some [(''ops'', [(''u1'', ''webhook''), (''u2'', ''webhook'')]), (''dev'', [(''u3'', ''email'')])] \<and>
   map_option (\<lambda>stored. map (\<lambda>receiver. (Receiver_Name receiver,
       map (\<lambda>member. (UID member, Type member)) (GrafanaManagedReceivers receiver)))
         (Receivers (fst stored)))
     (configs exampleTwinStore 1) =
     Some [(''ops'', [(''u1'', ''webhook'')]), (''ops'', [(''u4'', ''email''), (''u1'', ''email'')])] \<and>
   fst (UpdateContactPoint exampleService 1 exampleUpdate exampleTwinStore) = None \<and>
   map_option (\<lambda>stored. map (\<lambda>receiver. (Receiver_Name receiver,
       map (\<lambda>member. (UID member, Type member)) (GrafanaManagedReceivers receiver)))
         (Receivers (fst stored)))
     (configs (snd (UpdateContactPoint exampleService 1 exampleUpdate exampleTwinStore)) 1) =
     Some [(''ops'', [(''u1'', ''webhook'')]), (''ops'', [(''u4'', ''email''), (''u1'', ''webhook'')])]"
  by (simp add: update_defs exampleUpdate_def exampleTwinStore_def exampleTwinConfig_def Let_def)

text \<open>
  C10. A successful \<open>UpdateContactPoint\<close> saves the configuration it read with, in
  every receiver group of the contact point's name, the first member of the contact
  point's UID replaced at its own position by the merged receiver; the members before
  and after it, the group's name, the groups of other names and the order and number of
  the groups are as they were. So when some group has the contact point's name, the merged
  receiver is a member of the saved configuration. The merged receiver has the UID, name,
  type and flag of the contact point, its settings without the secret keys of its type,
  and under each secret key the encrypted value of what was submitted, or of what the
  unredacted contact point holds when the sentinel was submitted. The state the update
  leaves is the state the single save leaves; over the stores of the model
  (\<open>withStores H ecp = ecp\<close>) it is the state before with this document stored for the
  organisation, all provenance records unchanged. And the update is the same whatever
  the provenance store's operations are: it calls none of them.
\<close>

theorem UpdateContactPoint_in_place:
  assumes "UpdateContactPoint ecp orgID contactPoint s = (None, s')"
  shows "(\<exists>cfg fetchedHash raw secretKeys extracedSecrets mergedReceiver receivers data.
            getCurrentConfig ecp orgID s = Inr (cfg, fetchedHash) \<and>
            getContactPointUncrypted ecp orgID (UID contactPoint) s = Inr raw \<and>
            SecretKeys ecp (Type contactPoint) = Inr secretKeys \<and>
            list_all2 (\<lambda>secretKey kv. fst kv = secretKey \<and>
                encryptValue ecp
                  (if MustString (Get (Settings contactPoint) secretKey) = RedactedValue
                   then MustString (Get (Settings raw) secretKey)
                   else MustString (Get (Settings contactPoint) secretKey)) = Inr (snd kv))
              secretKeys extracedSecrets \<and>
            mergedReceiver =
              \<lparr>UID = UID contactPoint, Name = Name contactPoint, Type = Type contactPoint,
               DisableResolveMessage = DisableResolveMessage contactPoint,
               Settings = Settings contactPoint |` (- set secretKeys),
               SecureSettings = extracedSecrets\<rparr> \<and>
            length receivers = length (Receivers cfg) \<and>
            (\<forall>i < length (Receivers cfg).
               if Receiver_Name (Receivers cfg ! i) = Name contactPoint
               then \<exists>j < length (GrafanaManagedReceivers (Receivers cfg ! i)).
                      UID (GrafanaManagedReceivers (Receivers cfg ! i) ! j) = UID contactPoint \<and>
                      (\<forall>j' < j. UID (GrafanaManagedReceivers (Receivers cfg ! i) ! j') \<noteq> UID contactPoint) \<and>
                      receivers ! i = (Receivers cfg ! i)\<lparr>GrafanaManagedReceivers :=
                        (GrafanaManagedReceivers (Receivers cfg ! i))[j := mergedReceiver]\<rparr>
               else receivers ! i = Receivers cfg ! i) \<and>
            ((\<exists>receiver \<in> set (Receivers cfg). Receiver_Name receiver = Name contactPoint) \<longrightarrow>
               mergedReceiver \<in> set (GetGrafanaReceiverMap (cfg\<lparr>Receivers := receivers\<rparr>))) \<and>
            Marshal ecp (cfg\<lparr>Receivers := receivers\<rparr>) = Inr data \<and>
            UpdateAlertmanagerConfiguration ecp (saveCmd data fetchedHash orgID) s = Inr s' \<and>
            (withStores H ecp = ecp \<longrightarrow>
               s' = s\<lparr>configs := (configs s)(orgID \<mapsto> (data, H data))\<rparr> \<and>
               provenance_records s' = provenance_records s)) \<and>
         (\<forall>getProvenances setProvenance deleteProvenance.
            UpdateContactPoint
              (ecp\<lparr>GetProvenances := getProvenances, SetProvenance := setProvenance,
                    DeleteProvenance := deleteProvenance\<rparr>) orgID contactPoint s = (None, s'))"
proof (intro conjI allI)
  from assms obtain raw secretKeys extracedSecrets cfg fetchedHash receivers data where
    raw: "getContactPointUncrypted ecp orgID (UID contactPoint) s = Inr raw" and
    keys: "SecretKeys ecp (Type contactPoint) = Inr secretKeys" and
    secrets: "list_all2 (\<lambda>secretKey kv. fst kv = secretKey \<and>
        encryptValue ecp
          (if MustString (Get (Settings contactPoint) secretKey) = RedactedValue
           then MustString (Get (Settings raw) secretKey)
           else MustString (Get (Settings contactPoint) secretKey)) = Inr (snd kv))
      secretKeys extracedSecrets" and
    cur: "getCurrentConfig ecp orgID s = Inr (cfg, fetchedHash)" and
    rep: "replaceInReceivers
       \<lparr>UID = UID contactPoint, Name = Name contactPoint, Type = Type contactPoint,
        DisableResolveMessage = DisableResolveMessage contactPoint,
        Settings = Settings contactPoint |` (- set secretKeys),
        SecureSettings = extracedSecrets\<rparr>
       (Receivers cfg) = Inr receivers" and
    ma: "Marshal ecp (cfg\<lparr>Receivers := receivers\<rparr>) = Inr data" and
    up: "UpdateAlertmanagerConfiguration ecp (saveCmd data fetchedHash orgID) s = Inr s'"
    by (rule UpdateContactPoint_saved)
  let ?m = "\<lparr>UID = UID contactPoint, Name = Name contactPoint, Type = Type contactPoint,
        DisableResolveMessage = DisableResolveMessage contactPoint,
        Settings = Settings contactPoint |` (- set secretKeys),
        SecureSettings = extracedSecrets\<rparr>"
  have m: "UID ?m = UID contactPoint" "Name ?m = Name contactPoint" by simp_all
  note inv = replaceInReceivers_Inr [OF rep, unfolded m]
  from inv have len: "length receivers = length (Receivers cfg)"
    by (rule conjunct1)
  have fr: "\<forall>i < length (Receivers cfg).
               if Receiver_Name (Receivers cfg ! i) = Name contactPoint
               then \<exists>j < length (GrafanaManagedReceivers (Receivers cfg ! i)).
                      UID (GrafanaManagedReceivers (Receivers cfg ! i) ! j) = UID contactPoint \<and>
                      (\<forall>j' < j. UID (GrafanaManagedReceivers (Receivers cfg ! i) ! j') \<noteq> UID contactPoint) \<and>
                      receivers ! i = (Receivers cfg ! i)\<lparr>GrafanaManagedReceivers :=
                        (GrafanaManagedReceivers (Receivers cfg ! i))[j := ?m]\<rparr>
               else receivers ! i = Receivers cfg ! i"
  proof (intro allI impI)
    fix i assume "i < length (Receivers cfg)"
    from inv [THEN conjunct2, rule_format, OF this]
    show "if Receiver_Name (Receivers cfg ! i) = Name contactPoint
               then \<exists>j < length (GrafanaManagedReceivers (Receivers cfg ! i)).
                      UID (GrafanaManagedReceivers (Receivers cfg ! i) ! j) = UID contactPoint \<and>
                      (\<forall>j' < j. UID (GrafanaManagedReceivers (Receivers cfg ! i) ! j') \<noteq> UID contactPoint) \<and>
                      receivers ! i = (Receivers cfg ! i)\<lparr>GrafanaManagedReceivers :=
                        (GrafanaManagedReceivers (Receivers cfg ! i))[j := ?m]\<rparr>
               else receivers ! i = Receivers cfg ! i"
      by (rule conjunct2)
  qed
  have mem: "(\<exists>receiver \<in> set (Receivers cfg). Receiver_Name receiver = Name contactPoint) \<longrightarrow>
               ?m \<in> set (GetGrafanaReceiverMap (cfg\<lparr>Receivers := receivers\<rparr>))"
  proof
    assume "\<exists>receiver \<in> set (Receivers cfg). Receiver_Name receiver = Name contactPoint"
    then obtain i where i: "i < length (Receivers cfg)"
      "Receiver_Name (Receivers cfg ! i) = Name contactPoint"
      by (auto simp: in_set_conv_nth)
    from fr [rule_format, OF i(1)] i(2)
    have "\<exists>j < length (GrafanaManagedReceivers (Receivers cfg ! i)).
            UID (GrafanaManagedReceivers (Receivers cfg ! i) ! j) = UID contactPoint \<and>
            (\<forall>j' < j. UID (GrafanaManagedReceivers (Receivers cfg ! i) ! j') \<noteq> UID contactPoint) \<and>
            receivers ! i = (Receivers cfg ! i)\<lparr>GrafanaManagedReceivers :=
              (GrafanaManagedReceivers (Receivers cfg ! i))[j := ?m]\<rparr>"
      by simp
    then obtain j where j: "j < length (GrafanaManagedReceivers (Receivers cfg ! i))"
      "receivers ! i = (Receivers cfg ! i)\<lparr>GrafanaManagedReceivers :=
                        (GrafanaManagedReceivers (Receivers cfg ! i))[j := ?m]\<rparr>"
      by blast
    then have "?m \<in> set (GrafanaManagedReceivers (receivers ! i))"
      by (simp add: set_update_memI)
    moreover from i len have "receivers ! i \<in> set receivers" by simp
    ultimately show "?m \<in> set (GetGrafanaReceiverMap (cfg\<lparr>Receivers := receivers\<rparr>))"
      by (auto simp: GetGrafanaReceiverMap_def)
  qed
  have model: "withStores H ecp = ecp \<longrightarrow>
               s' = s\<lparr>configs := (configs s)(orgID \<mapsto> (data, H data))\<rparr> \<and>
               provenance_records s' = provenance_records s"
  proof
    assume stores: "withStores H ecp = ecp"
    from up have "s' = s\<lparr>configs := (configs s)(orgID \<mapsto> (data, H data))\<rparr>"
      unfolding withStores_fields [OF stores] by (auto dest: store_Update_Inr simp: saveCmd_def)
    then show "s' = s\<lparr>configs := (configs s)(orgID \<mapsto> (data, H data))\<rparr> \<and>
               provenance_records s' = provenance_records s"
      by simp
  qed
  have refl: "?m = ?m" ..
  show "\<exists>cfg fetchedHash raw secretKeys extracedSecrets mergedReceiver receivers data.
            getCurrentConfig ecp orgID s = Inr (cfg, fetchedHash) \<and>
            getContactPointUncrypted ecp orgID (UID contactPoint) s = Inr raw \<and>
            SecretKeys ecp (Type contactPoint) = Inr secretKeys \<and>
            list_all2 (\<lambda>secretKey kv. fst kv = secretKey \<and>
                encryptValue ecp
                  (if MustString (Get (Settings contactPoint) secretKey) = RedactedValue
                   then MustString (Get (Settings raw) secretKey)
                   else MustString (Get (Settings contactPoint) secretKey)) = Inr (snd kv))
              secretKeys extracedSecrets \<and>
            mergedReceiver =
              \<lparr>UID = UID contactPoint, Name = Name contactPoint, Type = Type contactPoint,
               DisableResolveMessage = DisableResolveMessage contactPoint,
               Settings = Settings contactPoint |` (- set secretKeys),
               SecureSettings = extracedSecrets\<rparr> \<and>
            length receivers = length (Receivers cfg) \<and>
            (\<forall>i < length (Receivers cfg).
               if Receiver_Name (Receivers cfg ! i) = Name contactPoint
               then \<exists>j < length (GrafanaManagedReceivers (Receivers cfg ! i)).
                      UID (GrafanaManagedReceivers (Receivers cfg ! i) ! j) = UID contactPoint \<and>
                      (\<forall>j' < j. UID (GrafanaManagedReceivers (Receivers cfg ! i) ! j') \<noteq> UID contactPoint) \<and>
                      receivers ! i = (Receivers cfg ! i)\<lparr>GrafanaManagedReceivers :=
                        (GrafanaManagedReceivers (Receivers cfg ! i))[j := mergedReceiver]\<rparr>
               else receivers ! i = Receivers cfg ! i) \<and>
            ((\<exists>receiver \<in> set (Receivers cfg). Receiver_Name receiver = Name contactPoint) \<longrightarrow>
               mergedReceiver \<in> set (GetGrafanaReceiverMap (cfg\<lparr>Receivers := receivers\<rparr>))) \<and>
            Marshal ecp (cfg\<lparr>Receivers := receivers\<rparr>) = Inr data \<and>
            UpdateAlertmanagerConfiguration ecp (saveCmd data fetchedHash orgID) s = Inr s' \<and>
            (withStores H ecp = ecp \<longrightarrow>
               s' = s\<lparr>configs := (configs s)(orgID \<mapsto> (data, H data))\<rparr> \<and>
               provenance_records s' = provenance_records s)"
    apply (rule exI [of _ cfg], rule exI [of _ fetchedHash], rule exI [of _ raw])
    apply (rule exI [of _ secretKeys], rule exI [of _ extracedSecrets], rule exI [of _ ?m])
    apply (rule exI [of _ receivers], rule exI [of _ data])
    using cur raw keys secrets refl len fr mem ma up model by (intro conjI)
next
  fix getProvenances setProvenance deleteProvenance
  show "UpdateContactPoint
              (ecp\<lparr>GetProvenances := getProvenances, SetProvenance := setProvenance,
                   DeleteProvenance := deleteProvenance\<rparr>) orgID contactPoint s = (None, s')"
    using assms by (simp only: UpdateContactPoint_provenance_free)
qed


theorem UpdateContactPoint_in_place_witness:
  "UpdateContactPoint exampleService 1 exampleUpdate exampleStore =
     (None, snd (UpdateContactPoint exampleService 1 exampleUpdate exampleStore)) \<and>
   withStores exampleHash exampleService = exampleService \<and>
   map_option (\<lambda>stored. map (\<lambda>receiver. (Receiver_Name receiver,
       map (\<lambda>member. (UID member, DisableResolveMessage member, Settings member ''url''))
         (GrafanaManagedReceivers receiver))) (Receivers (fst stored)))
     (configs (snd (UpdateContactPoint exampleService 1 exampleUpdate exampleStore)) 1) =
     Some [(''ops'', [(''u1'', True, Some (JString ''http://new'')),
                      (''u2'', True, Some (JString ''http://y''))]),
           (''dev'', [(''u3'', False, None)])] \<and>
   (\<exists>cfg fetchedHash raw secretKeys extracedSecrets mergedReceiver receivers data.
            getCurrentConfig exampleService 1 exampleStore = Inr (cfg, fetchedHash) \<and>
            getContactPointUncrypted exampleService 1 (UID exampleUpdate) exampleStore = Inr raw \<and>
            SecretKeys exampleService (Type exampleUpdate) = Inr secretKeys \<and>
            list_all2 (\<lambda>secretKey kv. fst kv = secretKey \<and>
                encryptValue exampleService
                  (if MustString (Get (Settings exampleUpdate) secretKey) = RedactedValue
                   then MustString (Get (Settings raw) secretKey)
                   else MustString (Get (Settings exampleUpdate) secretKey)) = Inr (snd kv))
              secretKeys extracedSecrets \<and>
            mergedReceiver =
              \<lparr>UID = UID exampleUpdate, Name = Name exampleUpdate, Type = Type exampleUpdate,
               DisableResolveMessage = DisableResolveMessage exampleUpdate,
               Settings = Settings exampleUpdate |` (- set secretKeys),
               SecureSettings = extracedSecrets\<rparr> \<and>
            length receivers = length (Receivers cfg) \<and>
            (\<forall>i < length (Receivers cfg).
               if Receiver_Name (Receivers cfg ! i) = Name exampleUpdate
               then \<exists>j < length (GrafanaManagedReceivers (Receivers cfg ! i)).
                      UID (GrafanaManagedReceivers (Receivers cfg ! i) ! j) = UID exampleUpdate \<and>
                      (\<forall>j' < j. UID (GrafanaManagedReceivers (Receivers cfg ! i) ! j') \<noteq> UID exampleUpdate) \<and>
                      receivers ! i = (Receivers cfg ! i)\<lparr>GrafanaManagedReceivers :=
                        (GrafanaManagedReceivers (Receivers cfg ! i))[j := mergedReceiver]\<rparr>
               else receivers ! i = Receivers cfg ! i) \<and>
            ((\<exists>receiver \<in> set (Receivers cfg). Receiver_Name receiver = Name exampleUpdate) \<longrightarrow>
               mergedReceiver \<in> set (GetGrafanaReceiverMap (cfg\<lparr>Receivers := receivers\<rparr>))) \<and>
            Marshal exampleService (cfg\<lparr>Receivers := receivers\<rparr>) = Inr data \<and>
            UpdateAlertmanagerConfiguration exampleService (saveCmd data fetchedHash 1) exampleStore = Inr (snd (UpdateContactPoint exampleService 1 exampleUpdate exampleStore)) \<and>
            (withStores exampleHash exampleService = exampleService \<longrightarrow>
               (snd (UpdateContactPoint exampleService 1 exampleUpdate exampleStore)) = exampleStore\<lparr>configs := (configs exampleStore)(1 \<mapsto> (data, exampleHash data))\<rparr> \<and>
               provenance_records (snd (UpdateContactPoint exampleService 1 exampleUpdate exampleStore)) = provenance_records exampleStore)) \<and>
         (\<forall>getProvenances setProvenance deleteProvenance.
            UpdateContactPoint
              (exampleService\<lparr>GetProvenances := getProvenances, SetProvenance := setProvenance,
                    DeleteProvenance := deleteProvenance\<rparr>) 1 exampleUpdate exampleStore = (None, (snd (UpdateContactPoint exampleService 1 exampleUpdate exampleStore))))"
proof -
  let ?run = "UpdateContactPoint exampleService 1 exampleUpdate exampleStore"
  have updated: "?run = (None, snd ?run)"
    using example_update by (simp add: prod_eq_iff)
  from UpdateContactPoint_in_place [OF updated, of exampleHash]
  show ?thesis
    by (intro conjI)
      (rule updated, rule example_withStores, rule example_updated_document,
        erule conjunct1, erule conjunct2)
qed

text \<open>
  C4. \<open>UpdateContactPoint\<close> answers \<open>NotFound\<close>, with the message
  \<^verbatim>\<open>contact point with uid '...' not found\<close>, when no receiver of the configuration has
  the UID, and when a group of the contact point's name lacks the UID; the stores are
  then as before. The check sits inside the test for the group's name, so it is not made
  when no group has the contact point's name: for the UID \<^verbatim>\<open>u1\<close> of the example
  configuration and the name \<^verbatim>\<open>nobody\<close> of no group, the update returns no error
  and saves the configuration as it was read.
\<close>

theorem UpdateContactPoint_unknown_name_succeeds:
  "map Receiver_Name (Receivers exampleConfig) = [''ops'', ''dev''] \<and>
   UpdateContactPoint exampleService 1 (exampleUpdate\<lparr>Name := ''nobody''\<rparr>) exampleStore =
     (None, exampleStore) \<and>
   UpdateContactPoint exampleService 1 (exampleUpdate\<lparr>UID := ''u3''\<rparr>) exampleStore =
     (Some (NotFound ''u3''), exampleStore) \<and>
   UpdateContactPoint exampleService 1 (exampleUpdate\<lparr>UID := ''u7'', Name := ''nobody''\<rparr>)
     exampleStore = (Some (NotFound ''u7''), exampleStore) \<and>
   Error (NotFound ''u7'') = ''contact point with uid '' @ [CHR 0x27] @ ''u7'' @ [CHR 0x27] @ '' not found''"
  by (simp add: update_defs exampleUpdate_def)

subsection \<open>Secrets that do not decrypt\<close>

text \<open>
  C9. In the listing, a secure setting whose value does not decode or decrypt is passed
  over and the listing goes on: the example configuration holds such a value under the
  key \<^verbatim>\<open>password\<close> of its second receiver, and all three contact points are
  returned, the first with its secret redacted. Nothing is written to the log for the
  value passed over: the one entry of the log is the provenance map.
\<close>

theorem GetContactPoints_skips_silently:
  "SecureSettings (GetGrafanaReceiverMap exampleConfig ! 1) =
     [(''password'', ''!corrupt''), (''token'', ''=#'')] \<and>
   decrypteValue exampleService ''!corrupt'' = Inl (CryptoError ''illegal base64 data'') \<and>
   GetContactPoints exampleService 1 exampleStore =
     ([Info ''provenances'' ''map'' [''u1'' \<mapsto> ''api'']], Inr exampleListing)"
  using example_listing
  by (simp add: GetGrafanaReceiverMap_def decrypteValue_def example_defs)

subsection \<open>Deleting\<close>

lemma removeMember_absent:
  "\<forall>r \<in> set members. UID r \<noteq> uid \<Longrightarrow> removeMember uid members = members"
  by (induction members) auto

lemma removeMember_subset: "set (removeMember uid members) \<subseteq> set members"
  by (induction members) auto

lemma removeMember_distinct:
  "distinct (map UID members) \<Longrightarrow> \<forall>r \<in> set (removeMember uid members). UID r \<noteq> uid"
proof (induction members)
  case Nil
  then show ?case by simp
next
  case (Cons g gs)
  show ?case
  proof (cases "UID g = uid")
    case True
    with Cons.prems show ?thesis by (auto simp: image_iff)
  next
    case False
    with Cons show ?thesis by auto
  qed
qed

lemma removeFromReceivers_absent:
  assumes "\<forall>receiver \<in> set (GetGrafanaReceiverMap cfg). UID receiver \<noteq> uid"
  shows "cfg\<lparr>Receivers := removeFromReceivers uid (Receivers cfg)\<rparr> = cfg"
proof -
  have "removeFromReceivers uid (Receivers cfg) = Receivers cfg"
    unfolding removeFromReceivers_def
  proof (rule map_idI)
    fix receiver assume "receiver \<in> set (Receivers cfg)"
    with assms have "\<forall>r \<in> set (GrafanaManagedReceivers receiver). UID r \<noteq> uid"
      by (auto simp: GetGrafanaReceiverMap_def)
    then show "receiver\<lparr>GrafanaManagedReceivers :=
        removeMember uid (GrafanaManagedReceivers receiver)\<rparr> = receiver"
      by (simp add: removeMember_absent)
  qed
  then show ?thesis by simp
qed

lemma removeFromReceivers_distinct:
  assumes "\<forall>receiver \<in> set (Receivers cfg). distinct (map UID (GrafanaManagedReceivers receiver))"
  shows "\<forall>receiver \<in> set (GetGrafanaReceiverMap
           (cfg\<lparr>Receivers := removeFromReceivers uid (Receivers cfg)\<rparr>)). UID receiver \<noteq> uid"
  using assms removeMember_distinct
  by (fastforce simp: GetGrafanaReceiverMap_def removeFromReceivers_def)

text \<open>What a deletion does over the stores of the model.\<close>

lemma DeleteContactPoint_withStores:
  assumes "configs s orgID = Some (data, hash)"
      and "DeserializeAlertmanagerConfig ecp data = Inr cfg"
      and "Marshal ecp (cfg\<lparr>Receivers := removeFromReceivers uid (Receivers cfg)\<rparr>) = Inr data'"
  shows "DeleteContactPoint (withStores H ecp) orgID uid s =
           (None, s\<lparr>configs := (configs s)(orgID \<mapsto> (data', H data')),
                    provenance_records := (provenance_records s)
                      (orgID := (provenance_records s orgID)(uid := None))\<rparr>)"
  using assms
  by (simp add: DeleteContactPoint_def getCurrentConfig_def withStores_def store_GetLatest_def
      store_DeleteProvenance_def store_Update_def InTransaction_def saveCmd_def)

lemma example_delete_u1:
  "fst (DeleteContactPoint exampleService 1 ''u1'' exampleStore) = None"
  by (simp add: DeleteContactPoint_def getCurrentConfig_def removeFromReceivers_def
      InTransaction_def saveCmd_def example_defs)

text \<open>
  C7. Over the stores of the model, with a configuration stored for the organisation:
  \<open>DeleteContactPoint\<close> of a UID that no receiver of any group has returns no error and
  saves the document it read (the stored document is the serialisation of the
  configuration), so the document is unchanged; the provenance record of the UID is
  deleted, which changes nothing when there is none. And deleting is idempotent: when the
  UIDs within each receiver group are distinct (UIDs are unique in an organisation) and
  what is saved is read back, a second deletion of the same UID returns no error and
  leaves the stores exactly as the first one left them.
\<close>

theorem DeleteContactPoint_idempotent:
  assumes "configs s orgID = Some (data, hash)"
      and "DeserializeAlertmanagerConfig ecp data = Inr cfg"
  shows "((\<forall>receiver \<in> set (GetGrafanaReceiverMap cfg). UID receiver \<noteq> uid) \<and>
          Marshal ecp cfg = Inr data \<longrightarrow>
            DeleteContactPoint (withStores H ecp) orgID uid s =
              (None, s\<lparr>configs := (configs s)(orgID \<mapsto> (data, H data)),
                       provenance_records := (provenance_records s)
                         (orgID := (provenance_records s orgID)(uid := None))\<rparr>)) \<and>
         ((\<forall>receiver \<in> set (Receivers cfg). distinct (map UID (GrafanaManagedReceivers receiver))) \<and>
          (\<forall>cfg' data'. Marshal ecp cfg' = Inr data' \<longrightarrow>
             DeserializeAlertmanagerConfig ecp data' = Inr cfg') \<and>
          DeleteContactPoint (withStores H ecp) orgID uid s = (None, s1) \<longrightarrow>
            DeleteContactPoint (withStores H ecp) orgID uid s1 = (None, s1))"
proof (intro conjI impI)
  assume "(\<forall>receiver \<in> set (GetGrafanaReceiverMap cfg). UID receiver \<noteq> uid) \<and>
          Marshal ecp cfg = Inr data"
  then have "Marshal ecp (cfg\<lparr>Receivers := removeFromReceivers uid (Receivers cfg)\<rparr>) = Inr data"
    by (simp add: removeFromReceivers_absent)
  from DeleteContactPoint_withStores [OF assms this]
  show "DeleteContactPoint (withStores H ecp) orgID uid s =
              (None, s\<lparr>configs := (configs s)(orgID \<mapsto> (data, H data)),
                       provenance_records := (provenance_records s)
                         (orgID := (provenance_records s orgID)(uid := None))\<rparr>)" .
next
  assume a: "(\<forall>receiver \<in> set (Receivers cfg). distinct (map UID (GrafanaManagedReceivers receiver))) \<and>
          (\<forall>cfg' data'. Marshal ecp cfg' = Inr data' \<longrightarrow>
             DeserializeAlertmanagerConfig ecp data' = Inr cfg') \<and>
          DeleteContactPoint (withStores H ecp) orgID uid s = (None, s1)"
  let ?cfg1 = "cfg\<lparr>Receivers := removeFromReceivers uid (Receivers cfg)\<rparr>"
  from a have dist: "\<forall>receiver \<in> set (Receivers cfg). distinct (map UID (GrafanaManagedReceivers receiver))"
    and rt: "\<And>cfg' data'. Marshal ecp cfg' = Inr data' \<Longrightarrow>
             DeserializeAlertmanagerConfig ecp data' = Inr cfg'"
    and d1: "DeleteContactPoint (withStores H ecp) orgID uid s = (None, s1)"
    by blast+
  from d1 assms obtain data1 where m1: "Marshal ecp ?cfg1 = Inr data1"
    by (auto simp: DeleteContactPoint_def getCurrentConfig_def withStores_def store_GetLatest_def
        split: sum.splits)
  from DeleteContactPoint_withStores [OF assms m1, of H] d1
  have s1: "s1 = s\<lparr>configs := (configs s)(orgID \<mapsto> (data1, H data1)),
                    provenance_records := (provenance_records s)
                      (orgID := (provenance_records s orgID)(uid := None))\<rparr>"
    by simp
  have c1: "configs s1 orgID = Some (data1, H data1)" unfolding s1 by simp
  have de1: "DeserializeAlertmanagerConfig ecp data1 = Inr ?cfg1" using m1 by (rule rt)
  have "?cfg1\<lparr>Receivers := removeFromReceivers uid (Receivers ?cfg1)\<rparr> = ?cfg1"
    using removeFromReceivers_distinct [OF dist] by (rule removeFromReceivers_absent)
  with m1 have m2: "Marshal ecp (?cfg1\<lparr>Receivers := removeFromReceivers uid (Receivers ?cfg1)\<rparr>) = Inr data1"
    by simp
  from DeleteContactPoint_withStores [OF c1 de1 m2, of H]
  show "DeleteContactPoint (withStores H ecp) orgID uid s1 = (None, s1)"
    unfolding s1 by simp
qed


theorem DeleteContactPoint_idempotent_witness:
  "DeleteContactPoint (withStores exampleHash exampleService) 1 ''u7'' exampleStore =
     (None, exampleStore) \<and>
   DeleteContactPoint (withStores exampleHash exampleService) 1 ''u1''
     (snd (DeleteContactPoint (withStores exampleHash exampleService) 1 ''u1'' exampleStore)) =
     (None, snd (DeleteContactPoint (withStores exampleHash exampleService) 1 ''u1'' exampleStore))"
proof -
  have c: "configs exampleStore 1 = Some (exampleConfig, exampleHash exampleConfig)"
    by (simp add: exampleStore_def)
  have d: "DeserializeAlertmanagerConfig exampleService exampleConfig = Inr exampleConfig"
    by (simp add: exampleService_def)
  have absent: "\<forall>receiver \<in> set (GetGrafanaReceiverMap exampleConfig). UID receiver \<noteq> ''u7''"
    by (simp add: GetGrafanaReceiverMap_def exampleConfig_def)
  have m: "Marshal exampleService exampleConfig = Inr exampleConfig"
    by (simp add: exampleService_def)
  have dist: "\<forall>receiver \<in> set (Receivers exampleConfig).
      distinct (map UID (GrafanaManagedReceivers receiver))"
    by (simp add: exampleConfig_def)
  have rt: "\<forall>cfg' data'. Marshal exampleService cfg' = Inr data' \<longrightarrow>
      DeserializeAlertmanagerConfig exampleService data' = Inr cfg'"
    by (simp add: exampleService_def)
  let ?run = "DeleteContactPoint (withStores exampleHash exampleService) 1 ''u1'' exampleStore"
  have once: "?run = (None, snd ?run)"
    using example_delete_u1 by (simp add: prod_eq_iff example_withStores)
  have same: "exampleStore\<lparr>configs := (configs exampleStore)(1 \<mapsto> (exampleConfig, exampleHash exampleConfig)),
      provenance_records := (provenance_records exampleStore)
        (1 := (provenance_records exampleStore 1)(''u7'' := None))\<rparr> = exampleStore"
    by (simp add: exampleStore_def fun_eq_iff)
  from DeleteContactPoint_idempotent [OF c d, of "''u7''" exampleHash] absent m same
  have first: "DeleteContactPoint (withStores exampleHash exampleService) 1 ''u7'' exampleStore =
     (None, exampleStore)"
    by simp
  from DeleteContactPoint_idempotent [OF c d, of "''u1''" exampleHash "snd ?run"] dist rt once
  have "DeleteContactPoint (withStores exampleHash exampleService) 1 ''u1'' (snd ?run) =
     (None, snd ?run)"
    by blast
  with first show ?thesis by (rule conjI)
qed

subsection \<open>The internal accessor\<close>

lemma setSecureSettings_agree:
  assumes "\<forall>v. (k, v) \<in> set kvs \<and> populated ecp v \<longrightarrow> decrypteValue ecp v = Inr p"
  shows "setSecureSettings ecp shown kvs j k =
     (if \<exists>v. (k, v) \<in> set kvs \<and> populated ecp v then Some (JString (shown p)) else j k)"
  using assms
proof (induction kvs arbitrary: j)
  case Nil
  then show ?case by simp
next
  case (Cons kv kvs)
  obtain k' v' where kv: "kv = (k', v')" by (cases kv)
  from Cons.prems have tl: "\<forall>v. (k, v) \<in> set kvs \<and> populated ecp v \<longrightarrow> decrypteValue ecp v = Inr p"
    by simp
  note IH = Cons.IH [OF tl]
  show ?case
  proof (cases "populated ecp v'")
    case False
    then have "setSecureSettings ecp shown (kv # kvs) j = setSecureSettings ecp shown kvs j"
      unfolding kv by (rule setSecureSettings_skip)
    with False show ?thesis
      unfolding kv by (auto simp: IH)
  next
    case True
    then obtain p' where p': "decrypteValue ecp v' = Inr p'" "p' \<noteq> []" by (rule populatedE)
    have step: "setSecureSettings ecp shown (kv # kvs) j k =
      (if \<exists>v. (k, v) \<in> set kvs \<and> populated ecp v then Some (JString (shown p))
       else SetKey j k' (JString (shown p')) k)"
      unfolding kv setSecureSettings_set [OF p'] IH ..
    show ?thesis
    proof (cases "k' = k")
      case same: True
      with Cons.prems True have "decrypteValue ecp v' = Inr p" unfolding kv by simp
      with p' have "p' = p" by simp
      with same True show ?thesis by (subst step) (auto simp: kv SetKey_def)
    next
      case False
      then show ?thesis by (subst step) (auto simp: kv SetKey_def)
    qed
  qed
qed

lemma setSecureSettings_untouched:
  assumes "\<not> (\<exists>v. (k, v) \<in> set kvs \<and> populated ecp v)"
  shows "setSecureSettings ecp shown kvs j k = j k"
proof -
  from assms have "\<forall>v. (k, v) \<in> set kvs \<and> populated ecp v \<longrightarrow> decrypteValue ecp v = Inr []"
    by blast
  from setSecureSettings_agree [OF this] assms show ?thesis by simp
qed

lemma setSecureSettings_distinct:
  assumes "distinct (map fst kvs)" and "(k, v) \<in> set kvs"
    and "decrypteValue ecp v = Inr p" and "p \<noteq> []"
  shows "setSecureSettings ecp shown kvs j k = Some (JString (shown p))"
proof -
  from assms(1,2) have only: "\<forall>v'. (k, v') \<in> set kvs \<longrightarrow> v' = v"
    by (meson eq_key_imp_eq_value)
  from assms(3,4) have "populated ecp v" by (simp add: populated_def)
  with assms(2) have ex: "\<exists>v. (k, v) \<in> set kvs \<and> populated ecp v" by blast
  from only assms(3) have "\<forall>v. (k, v) \<in> set kvs \<and> populated ecp v \<longrightarrow> decrypteValue ecp v = Inr p"
    by blast
  from setSecureSettings_agree [OF this] ex show ?thesis by simp
qed

lemma find_unique:
  assumes "x \<in> set xs" and "P x" and "\<forall>y \<in> set xs. P y \<longrightarrow> y = x"
  shows "find P xs = Some x"
  using assms
proof (induction xs)
  case Nil
  then show ?case by simp
next
  case (Cons a xs)
  show ?case
  proof (cases "P a")
    case True
    with Cons.prems(3) have "a = x" by (meson list.set_intros(1))
    with True show ?thesis by simp
  next
    case False
    with Cons.prems have "x \<in> set xs" "\<forall>y \<in> set xs. P y \<longrightarrow> y = x"
      by (auto simp del: One_nat_def)
    with Cons.IH Cons.prems(2) have "find P xs = Some x" by blast
    with False show ?thesis by simp
  qed
qed

lemma getContactPointUncrypted_found:
  assumes "getCurrentConfig ecp orgID s = Inr (cfg, hash)"
    and "\<exists>receiver \<in> set (GetGrafanaReceiverMap cfg). UID receiver = uid"
  shows "\<exists>receiver \<in> set (GetGrafanaReceiverMap cfg). UID receiver = uid \<and>
           getContactPointUncrypted ecp orgID uid s = Inr (uncryptedContactPoint ecp receiver)"
proof -
  from assms(2) obtain receiver where
    "find (\<lambda>receiver. UID receiver = uid) (GetGrafanaReceiverMap cfg) = Some receiver"
    by (cases "find (\<lambda>receiver. UID receiver = uid) (GetGrafanaReceiverMap cfg)")
       (auto simp: find_None_iff)
  moreover from this have "receiver \<in> set (GetGrafanaReceiverMap cfg)" "UID receiver = uid"
    by (auto simp: find_Some_iff)
  ultimately show ?thesis using assms(1)
    by (auto simp: getContactPointUncrypted_def)
qed

lemma getContactPointUncrypted_missing:
  assumes "getCurrentConfig ecp orgID s = Inr (cfg, hash)"
    and "\<forall>receiver \<in> set (GetGrafanaReceiverMap cfg). UID receiver \<noteq> uid"
  shows "getContactPointUncrypted ecp orgID uid s = Inl (NotFound uid)"
proof -
  from assms(2) have "find (\<lambda>receiver. UID receiver = uid) (GetGrafanaReceiverMap cfg) = None"
    by (simp add: find_None_iff)
  with assms(1) show ?thesis by (simp add: getContactPointUncrypted_def)
qed


lemma encryptSecrets_forward:
  assumes "encryptSecrets ecp kvs = Inr kvs'" and "(k, v) \<in> set kvs"
  shows "\<exists>c. (k, c) \<in> set kvs' \<and> encryptValue ecp v = Inr c"
proof -
  from assms(2) obtain i where i: "i < length kvs" "kvs ! i = (k, v)"
    by (auto simp: in_set_conv_nth)
  from encryptSecrets_Inr [OF assms(1)] i
  have "i < length kvs'" "fst (kvs' ! i) = k" "encryptValue ecp v = Inr (snd (kvs' ! i))"
    by (auto simp: list_all2_conv_all_nth)
  then show ?thesis
    by (intro exI [of _ "snd (kvs' ! i)"]) (metis nth_mem prod.collapse)
qed

lemma encryptSecrets_backward:
  assumes "encryptSecrets ecp kvs = Inr kvs'" and "(k, c) \<in> set kvs'"
  shows "\<exists>v. (k, v) \<in> set kvs \<and> encryptValue ecp v = Inr c"
proof -
  from assms(2) obtain i where i: "i < length kvs'" "kvs' ! i = (k, c)"
    by (auto simp: in_set_conv_nth)
  from encryptSecrets_Inr [OF assms(1)] i
  have "i < length kvs" "fst (kvs ! i) = k" "encryptValue ecp (snd (kvs ! i)) = Inr c"
    by (auto simp: list_all2_conv_all_nth)
  then show ?thesis
    by (intro exI [of _ "snd (kvs ! i)"]) (metis nth_mem prod.collapse)
qed

lemma set_GetGrafanaReceiverMap_addReceiver:
  "set (GetGrafanaReceiverMap (addReceiver grafanaReceiver cfg)) =
     insert grafanaReceiver (set (GetGrafanaReceiverMap cfg))"
  unfolding addReceiver_eq GetGrafanaReceiverMap_def
  by (auto split: if_splits)

lemma store_Update_configs:
  assumes "store_Update H cmd s = Inr s1"
  shows "configs s1 (OrgID cmd) = Some (AlertmanagerConfiguration cmd, H (AlertmanagerConfiguration cmd))"
    and "provenance_records s1 = provenance_records s"
  using assms by (auto simp: store_Update_def split: option.splits if_splits)

lemma store_SetProvenance_configs:
  assumes "store_SetProvenance orgID resource tag s1 = Inr s'"
  shows "configs s' = configs s1"
  using assms by (auto simp: store_SetProvenance_def)

text \<open>What a successful creation leaves in the stores of the model, and what the internal
  accessor then reads under the new UID.\<close>

lemma CreateContactPoint_then_uncrypted:
  assumes stores: "withStores H ecp = ecp"
    and rt: "\<forall>cfg' data'. Marshal ecp cfg' = Inr data' \<longrightarrow>
               DeserializeAlertmanagerConfig ecp data' = Inr cfg'"
    and cur: "getCurrentConfig ecp orgID s = Inr (cfg, hash)"
    and fresh: "\<forall>receiver \<in> set (GetGrafanaReceiverMap cfg). UID receiver \<noteq> newUID"
    and created: "CreateContactPoint ecp orgID contactPoint provenance newUID s = (Inr created, s')"
  shows "\<exists>plainSecrets stripped extracedSecrets.
           ExtractSecrtes ecp contactPoint = Inr (plainSecrets, stripped) \<and>
           encryptSecrets ecp plainSecrets = Inr extracedSecrets \<and>
           getContactPointUncrypted ecp orgID newUID s' =
             Inr (uncryptedContactPoint ecp
                \<lparr>UID = newUID, Name = Name stripped, Type = Type stripped,
                 DisableResolveMessage = DisableResolveMessage stripped,
                 Settings = Settings stripped, SecureSettings = extracedSecrets\<rparr>)"
proof -
  from created obtain cfg0 fetchedHash plainSecrets stripped extracedSecrets data s1 where
    cur0: "getCurrentConfig ecp orgID s = Inr (cfg0, fetchedHash)" and
    ex: "ExtractSecrtes ecp contactPoint = Inr (plainSecrets, stripped)" and
    en: "encryptSecrets ecp plainSecrets = Inr extracedSecrets" and
    ma: "Marshal ecp (addReceiver
        \<lparr>UID = newUID, Name = Name stripped, Type = Type stripped,
         DisableResolveMessage = DisableResolveMessage stripped,
         Settings = Settings stripped, SecureSettings = extracedSecrets\<rparr> cfg0) = Inr data" and
    up: "UpdateAlertmanagerConfiguration ecp (saveCmd data fetchedHash orgID) s = Inr s1" and
    sp: "SetProvenance ecp orgID (stripped\<lparr>UID := newUID\<rparr>) provenance s1 = Inr s'"
    by (rule CreateContactPoint_Inr)
  let ?gr = "\<lparr>UID = newUID, Name = Name stripped, Type = Type stripped,
         DisableResolveMessage = DisableResolveMessage stripped,
         Settings = Settings stripped, SecureSettings = extracedSecrets\<rparr>"
  from cur cur0 have cfg0: "cfg0 = cfg" by simp
  from up have "configs s1 orgID = Some (data, H data)"
    unfolding withStores_fields [OF stores] by (auto dest: store_Update_configs simp: saveCmd_def)
  moreover from sp have "configs s' = configs s1"
    unfolding withStores_fields [OF stores] by (rule store_SetProvenance_configs)
  ultimately have "configs s' orgID = Some (data, H data)" by simp
  moreover from ma rt have "DeserializeAlertmanagerConfig ecp data = Inr (addReceiver ?gr cfg)"
    unfolding cfg0 by blast
  ultimately have cur': "getCurrentConfig ecp orgID s' = Inr (addReceiver ?gr cfg, H data)"
    by (simp add: getCurrentConfig_def withStores_fields [OF stores] store_GetLatest_def)
  have "find (\<lambda>receiver. UID receiver = newUID) (GetGrafanaReceiverMap (addReceiver ?gr cfg)) = Some ?gr"
    using fresh by (intro find_unique) (auto simp: set_GetGrafanaReceiverMap_addReceiver)
  with cur' have "getContactPointUncrypted ecp orgID newUID s' = Inr (uncryptedContactPoint ecp ?gr)"
    by (simp add: getContactPointUncrypted_def)
  with ex en show ?thesis by blast
qed


lemma uncryptedContactPoint_fields:
  "UID (uncryptedContactPoint ecp receiver) = UID receiver"
  "Name (uncryptedContactPoint ecp receiver) = Name receiver"
  "Type (uncryptedContactPoint ecp receiver) = Type receiver"
  "DisableResolveMessage (uncryptedContactPoint ecp receiver) = DisableResolveMessage receiver"
  "Settings (uncryptedContactPoint ecp receiver) =
     setSecureSettings ecp (\<lambda>decryptedValue. decryptedValue) (SecureSettings receiver) (Settings receiver)"
  by (simp_all add: uncryptedContactPoint_def)

lemma example_current:
  "getCurrentConfig exampleService 1 exampleStore = Inr (exampleConfig, exampleHash exampleConfig)"
  by (simp add: getCurrentConfig_def exampleService_def exampleStore_def store_GetLatest_def)

lemma example_u1_only:
  "receiver \<in> set (GetGrafanaReceiverMap exampleConfig) \<Longrightarrow> UID receiver = ''u1'' \<Longrightarrow>
     SecureSettings receiver = [(''password'', ''=#hunter2'')]"
  by (auto simp: GetGrafanaReceiverMap_def exampleConfig_def)

text \<open>
  C8. With the configuration of the organisation read: \<open>getContactPointUncrypted\<close>
  answers \<open>NotFound\<close> when no receiver has the UID. When one has it, the answer is the
  contact point of a receiver of that UID (its UID, name, type and flag), whose settings
  hold, under every key of the secure settings whose ciphertext decrypts to a non-empty
  value, that decrypted value (the secure settings are a Go map: their keys are
  distinct), and the stored plain setting under every key without a populated secret.
  And creating then reading returns the secret: over the stores of the model
  (\<open>withStores H ecp = ecp\<close>), with a cipher and a serialisation that read back what they
  wrote and a generated UID that no receiver has yet, after a successful
  \<open>CreateContactPoint\<close> the accessor finds the new UID and shows, under each secret key of
  the contact point's type that was submitted with a non-empty string, that string.
\<close>

theorem getContactPointUncrypted_decrypts:
  assumes "getCurrentConfig ecp orgID s = Inr (cfg, hash)"
  shows "((\<forall>receiver \<in> set (GetGrafanaReceiverMap cfg). UID receiver \<noteq> uid) \<longrightarrow>
            getContactPointUncrypted ecp orgID uid s = Inl (NotFound uid)) \<and>
         ((\<exists>receiver \<in> set (GetGrafanaReceiverMap cfg). UID receiver = uid) \<longrightarrow>
            (\<exists>receiver \<in> set (GetGrafanaReceiverMap cfg). \<exists>contactPoint.
               UID receiver = uid \<and>
               getContactPointUncrypted ecp orgID uid s = Inr contactPoint \<and>
               UID contactPoint = uid \<and> Name contactPoint = Name receiver \<and>
               Type contactPoint = Type receiver \<and>
               DisableResolveMessage contactPoint = DisableResolveMessage receiver \<and>
               (\<forall>k v p. distinct (map fst (SecureSettings receiver)) \<and>
                  (k, v) \<in> set (SecureSettings receiver) \<and>
                  decrypteValue ecp v = Inr p \<and> p \<noteq> [] \<longrightarrow>
                  Settings contactPoint k = Some (JString p)) \<and>
               (\<forall>k. \<not> (\<exists>v. (k, v) \<in> set (SecureSettings receiver) \<and> populated ecp v) \<longrightarrow>
                  Settings contactPoint k = Settings receiver k))) \<and>
         (withStores H ecp = ecp \<and>
          (\<forall>p c. encryptValue ecp p = Inr c \<longrightarrow> decrypteValue ecp c = Inr p) \<and>
          (\<forall>cfg' data'. Marshal ecp cfg' = Inr data' \<longrightarrow>
             DeserializeAlertmanagerConfig ecp data' = Inr cfg') \<and>
          (\<forall>receiver \<in> set (GetGrafanaReceiverMap cfg). UID receiver \<noteq> newUID) \<and>
          CreateContactPoint ecp orgID contactPoint provenance newUID s = (Inr created, s') \<and>
          SecretKeys ecp (Type contactPoint) = Inr secretKeys \<and> k \<in> set secretKeys \<and>
          Settings contactPoint k = Some (JString p) \<and> p \<noteq> [] \<longrightarrow>
            (\<exists>raw. getContactPointUncrypted ecp orgID newUID s' = Inr raw \<and>
               UID raw = newUID \<and> Name raw = Name contactPoint \<and> Type raw = Type contactPoint \<and>
               Settings raw k = Some (JString p)))"
proof (intro conjI impI)
  assume "\<forall>receiver \<in> set (GetGrafanaReceiverMap cfg). UID receiver \<noteq> uid"
  with assms show "getContactPointUncrypted ecp orgID uid s = Inl (NotFound uid)"
    by (rule getContactPointUncrypted_missing)
next
  assume "\<exists>receiver \<in> set (GetGrafanaReceiverMap cfg). UID receiver = uid"
  with assms obtain receiver where r: "receiver \<in> set (GetGrafanaReceiverMap cfg)" "UID receiver = uid"
    "getContactPointUncrypted ecp orgID uid s = Inr (uncryptedContactPoint ecp receiver)"
    by (blast dest: getContactPointUncrypted_found)
  show "\<exists>receiver \<in> set (GetGrafanaReceiverMap cfg). \<exists>contactPoint.
               UID receiver = uid \<and>
               getContactPointUncrypted ecp orgID uid s = Inr contactPoint \<and>
               UID contactPoint = uid \<and> Name contactPoint = Name receiver \<and>
               Type contactPoint = Type receiver \<and>
               DisableResolveMessage contactPoint = DisableResolveMessage receiver \<and>
               (\<forall>k v p. distinct (map fst (SecureSettings receiver)) \<and>
                  (k, v) \<in> set (SecureSettings receiver) \<and>
                  decrypteValue ecp v = Inr p \<and> p \<noteq> [] \<longrightarrow>
                  Settings contactPoint k = Some (JString p)) \<and>
               (\<forall>k. \<not> (\<exists>v. (k, v) \<in> set (SecureSettings receiver) \<and> populated ecp v) \<longrightarrow>
                  Settings contactPoint k = Settings receiver k)"
  proof (intro bexI [of _ receiver] exI [of _ "uncryptedContactPoint ecp receiver"] conjI allI impI)
    fix k v p
    assume "distinct (map fst (SecureSettings receiver)) \<and>
                  (k, v) \<in> set (SecureSettings receiver) \<and>
                  decrypteValue ecp v = Inr p \<and> p \<noteq> []"
    then have "setSecureSettings ecp (\<lambda>decryptedValue. decryptedValue)
        (SecureSettings receiver) (Settings receiver) k = Some (JString p)"
      by (intro setSecureSettings_distinct [where v = v]) simp_all
    then show "Settings (uncryptedContactPoint ecp receiver) k = Some (JString p)"
      by (simp only: uncryptedContactPoint_fields)
  next
    fix k assume "\<not> (\<exists>v. (k, v) \<in> set (SecureSettings receiver) \<and> populated ecp v)"
    then have "setSecureSettings ecp (\<lambda>decryptedValue. decryptedValue)
        (SecureSettings receiver) (Settings receiver) k = Settings receiver k"
      by (rule setSecureSettings_untouched)
    then show "Settings (uncryptedContactPoint ecp receiver) k = Settings receiver k"
      by (simp only: uncryptedContactPoint_fields)
  qed (use r in \<open>simp_all add: uncryptedContactPoint_fields\<close>)
next
  assume a: "withStores H ecp = ecp \<and>
          (\<forall>p c. encryptValue ecp p = Inr c \<longrightarrow> decrypteValue ecp c = Inr p) \<and>
          (\<forall>cfg' data'. Marshal ecp cfg' = Inr data' \<longrightarrow>
             DeserializeAlertmanagerConfig ecp data' = Inr cfg') \<and>
          (\<forall>receiver \<in> set (GetGrafanaReceiverMap cfg). UID receiver \<noteq> newUID) \<and>
          CreateContactPoint ecp orgID contactPoint provenance newUID s = (Inr created, s') \<and>
          SecretKeys ecp (Type contactPoint) = Inr secretKeys \<and> k \<in> set secretKeys \<and>
          Settings contactPoint k = Some (JString p) \<and> p \<noteq> []"
  then have stores: "withStores H ecp = ecp"
    and crypto: "\<And>p c. encryptValue ecp p = Inr c \<Longrightarrow> decrypteValue ecp c = Inr p"
    and rt: "\<forall>cfg' data'. Marshal ecp cfg' = Inr data' \<longrightarrow>
             DeserializeAlertmanagerConfig ecp data' = Inr cfg'"
    and fresh: "\<forall>receiver \<in> set (GetGrafanaReceiverMap cfg). UID receiver \<noteq> newUID"
    and created: "CreateContactPoint ecp orgID contactPoint provenance newUID s = (Inr created, s')"
    and keys: "SecretKeys ecp (Type contactPoint) = Inr secretKeys" "k \<in> set secretKeys"
    and secret: "Settings contactPoint k = Some (JString p)" "p \<noteq> []"
    by blast+
  from CreateContactPoint_then_uncrypted [OF stores rt assms fresh created]
  obtain plainSecrets stripped extracedSecrets where
    ex: "ExtractSecrtes ecp contactPoint = Inr (plainSecrets, stripped)" and
    en: "encryptSecrets ecp plainSecrets = Inr extracedSecrets" and
    got: "getContactPointUncrypted ecp orgID newUID s' =
             Inr (uncryptedContactPoint ecp
                \<lparr>UID = newUID, Name = Name stripped, Type = Type stripped,
                 DisableResolveMessage = DisableResolveMessage stripped,
                 Settings = Settings stripped, SecureSettings = extracedSecrets\<rparr>)"
    by blast
  let ?raw = "uncryptedContactPoint ecp
                \<lparr>UID = newUID, Name = Name stripped, Type = Type stripped,
                 DisableResolveMessage = DisableResolveMessage stripped,
                 Settings = Settings stripped, SecureSettings = extracedSecrets\<rparr>"
  from ex keys have plain: "plainSecrets =
      map (\<lambda>secretKey. (secretKey, MustString (Get (Settings contactPoint) secretKey))) secretKeys"
    by (simp add: ExtractSecrtes_def)
  have at_k: "MustString (Get (Settings contactPoint) k) = p"
    using secret by (simp add: Get_def)
  have all: "\<forall>c. (k, c) \<in> set extracedSecrets \<and> populated ecp c \<longrightarrow> decrypteValue ecp c = Inr p"
  proof (intro allI impI)
    fix c assume "(k, c) \<in> set extracedSecrets \<and> populated ecp c"
    with encryptSecrets_backward [OF en] obtain v where
      "(k, v) \<in> set plainSecrets" "encryptValue ecp v = Inr c" by blast
    moreover from this have "v = p" unfolding plain using at_k by auto
    ultimately show "decrypteValue ecp c = Inr p" by (simp add: crypto)
  qed
  from keys have "(k, p) \<in> set plainSecrets" unfolding plain using at_k by auto
  with encryptSecrets_forward [OF en] obtain c where
    c: "(k, c) \<in> set extracedSecrets" "encryptValue ecp p = Inr c" by blast
  then have "decrypteValue ecp c = Inr p" by (simp add: crypto)
  with secret have "populated ecp c" by (simp add: populated_def)
  with c have some: "\<exists>c. (k, c) \<in> set extracedSecrets \<and> populated ecp c" by blast
  have "Settings ?raw k = Some (JString p)"
    unfolding uncryptedContactPoint_fields using setSecureSettings_agree [OF all] some by simp
  moreover have "UID ?raw = newUID" "Name ?raw = Name contactPoint" "Type ?raw = Type contactPoint"
    by (simp_all add: uncryptedContactPoint_fields ExtractSecrtes_fields [OF ex])
  ultimately show "\<exists>raw. getContactPointUncrypted ecp orgID newUID s' = Inr raw \<and>
               UID raw = newUID \<and> Name raw = Name contactPoint \<and> Type raw = Type contactPoint \<and>
               Settings raw k = Some (JString p)"
    using got by blast
qed


theorem getContactPointUncrypted_decrypts_witness:
  "getContactPointUncrypted exampleService 1 ''u7'' exampleStore = Inl (NotFound ''u7'') \<and>
   (\<exists>contactPoint.
      getContactPointUncrypted exampleService 1 ''u1'' exampleStore = Inr contactPoint \<and>
      Settings contactPoint ''password'' = Some (JString ''hunter2'') \<and>
      Settings contactPoint ''url'' = Some (JString ''http://x'')) \<and>
   (\<exists>raw.
      getContactPointUncrypted exampleService 1 ''u9''
        (snd (CreateContactPoint exampleService 1 exampleContactPoint ''api'' ''u9'' exampleStore)) =
        Inr raw \<and>
      Settings raw ''password'' = Some (JString ''s3cret''))"
proof -
  note inst = getContactPointUncrypted_decrypts [OF example_current]
  have "\<forall>receiver \<in> set (GetGrafanaReceiverMap exampleConfig). UID receiver \<noteq> ''u7''"
    by (simp add: GetGrafanaReceiverMap_def exampleConfig_def)
  with inst [of "''u7''"] have missing:
    "getContactPointUncrypted exampleService 1 ''u7'' exampleStore = Inl (NotFound ''u7'')"
    by blast
  have "\<exists>receiver \<in> set (GetGrafanaReceiverMap exampleConfig). UID receiver = ''u1''"
    by (simp add: GetGrafanaReceiverMap_def exampleConfig_def)
  with inst [of "''u1''"] obtain receiver contactPoint where
    r: "receiver \<in> set (GetGrafanaReceiverMap exampleConfig)" "UID receiver = ''u1''" and
    got: "getContactPointUncrypted exampleService 1 ''u1'' exampleStore = Inr contactPoint" and
    dec: "\<forall>k v p. distinct (map fst (SecureSettings receiver)) \<and>
                  (k, v) \<in> set (SecureSettings receiver) \<and>
                  decrypteValue exampleService v = Inr p \<and> p \<noteq> [] \<longrightarrow>
                  Settings contactPoint k = Some (JString p)" and
    plain: "\<forall>k. \<not> (\<exists>v. (k, v) \<in> set (SecureSettings receiver) \<and> populated exampleService v) \<longrightarrow>
                  Settings contactPoint k = Settings receiver k"
    by blast
  have ss: "SecureSettings receiver = [(''password'', ''=#hunter2'')]"
    using r by (rule example_u1_only)
  have "decrypteValue exampleService ''=#hunter2'' = Inr ''hunter2''"
    by (simp add: decrypteValue_def example_defs)
  with dec ss have pw: "Settings contactPoint ''password'' = Some (JString ''hunter2'')"
    by simp
  have "Settings receiver ''url'' = Some (JString ''http://x'')"
    using r by (auto simp: GetGrafanaReceiverMap_def exampleConfig_def)
  with plain ss have url: "Settings contactPoint ''url'' = Some (JString ''http://x'')"
    by simp
  let ?run = "CreateContactPoint exampleService 1 exampleContactPoint ''api'' ''u9'' exampleStore"
  have created: "?run = (Inr exampleCreated, snd ?run)"
    using example_create by (simp add: prod_eq_iff)
  have crypto: "\<forall>p c. encryptValue exampleService p = Inr c \<longrightarrow> decrypteValue exampleService c = Inr p"
    by (auto simp: encryptValue_def decrypteValue_def example_defs)
  have rt: "\<forall>cfg' data'. Marshal exampleService cfg' = Inr data' \<longrightarrow>
      DeserializeAlertmanagerConfig exampleService data' = Inr cfg'"
    by (simp add: exampleService_def)
  have fresh: "\<forall>receiver \<in> set (GetGrafanaReceiverMap exampleConfig). UID receiver \<noteq> ''u9''"
    by (simp add: GetGrafanaReceiverMap_def exampleConfig_def)
  have keys: "SecretKeys exampleService (Type exampleContactPoint) = Inr [''password'']"
    by (simp add: exampleService_def exampleSecretKeys_def exampleContactPoint_def)
  have secret: "Settings exampleContactPoint ''password'' = Some (JString ''s3cret'')"
    by (simp add: exampleContactPoint_def)
  have mem: "''password'' \<in> set [''password'']" and nonempty: "''s3cret'' \<noteq> []"
    by simp_all
  note third = getContactPointUncrypted_decrypts [where H = exampleHash
      and newUID = "''u9''" and contactPoint = exampleContactPoint and provenance = "''api''"
      and created = exampleCreated and s' = "snd ?run" and secretKeys = "[''password'']"
      and k = "''password''" and p = "''s3cret''", OF example_current,
      THEN conjunct2, THEN conjunct2]
  from third example_withStores crypto rt fresh created keys mem secret nonempty
  have "\<exists>raw. getContactPointUncrypted exampleService 1 ''u9'' (snd ?run) = Inr raw \<and>
      Settings raw ''password'' = Some (JString ''s3cret'')"
    by blast
  with missing got pw url show ?thesis by blast
qed

subsection \<open>Merging on update\<close>

lemma SetKey_apply: "SetKey j a v k = (if k = a then Some v else j k)"
  by (simp add: SetKey_def)

lemma mergeRedacted_settings:
  "Settings (mergeRedacted raw secretKeys contactPoint) k =
     (if k \<in> set secretKeys \<and> MustString (Get (Settings contactPoint) k) = RedactedValue
      then Some (JString (MustString (Get (Settings raw) k)))
      else Settings contactPoint k)"
proof (induction secretKeys arbitrary: contactPoint)
  case Nil
  then show ?case by simp
next
  case (Cons a rest)
  show ?case
  proof (cases "MustString (Get (Settings contactPoint) a) = RedactedValue")
    case False
    then have "mergeRedacted raw (a # rest) contactPoint = mergeRedacted raw rest contactPoint"
      by (simp add: Let_def)
    with False show ?thesis by (auto simp: Cons.IH)
  next
    case True
    let ?cp = "contactPoint\<lparr>Settings := SetKey (Settings contactPoint) a
                    (JString (MustString (Get (Settings raw) a)))\<rparr>"
    from True have step: "mergeRedacted raw (a # rest) contactPoint = mergeRedacted raw rest ?cp"
      by (simp add: Let_def)
    show ?thesis
      unfolding step Cons.IH using True by (auto simp: Get_SetKey SetKey_apply)
  qed
qed

lemma mergeRedacted_record:
  "mergeRedacted raw secretKeys contactPoint =
     contactPoint\<lparr>Settings := Settings (mergeRedacted raw secretKeys contactPoint)\<rparr>"
  by (rule EmbeddedContactPoint.equality) (simp_all add: mergeRedacted_fields)

lemma mergeRedacted_eq:
  "mergeRedacted raw secretKeys contactPoint =
     contactPoint\<lparr>Settings := (\<lambda>k.
       if k \<in> set secretKeys \<and> MustString (Get (Settings contactPoint) k) = RedactedValue
       then Some (JString (MustString (Get (Settings raw) k)))
       else Settings contactPoint k)\<rparr>"
proof -
  have "Settings (mergeRedacted raw secretKeys contactPoint) = (\<lambda>k.
       if k \<in> set secretKeys \<and> MustString (Get (Settings contactPoint) k) = RedactedValue
       then Some (JString (MustString (Get (Settings raw) k)))
       else Settings contactPoint k)"
    by (rule ext) (rule mergeRedacted_settings)
  with mergeRedacted_record [of raw secretKeys contactPoint] show ?thesis by simp
qed

lemma MustString_nonempty:
  "MustString (Get j k) = p \<Longrightarrow> p \<noteq> [] \<Longrightarrow> j k = Some (JString p)"
  by (cases "j k"; cases "Get j k") (auto simp: Get_def)

lemma find_append_cases:
  "find P (xs @ ys) = (case find P xs of None \<Rightarrow> find P ys | Some x \<Rightarrow> Some x)"
  by (induction xs) auto

lemma replaceMember_find:
  "replaceMember mergedReceiver members = Some members' \<Longrightarrow>
     find (\<lambda>receiver. UID receiver = UID mergedReceiver) members' = Some mergedReceiver"
  by (induction members arbitrary: members') (auto split: if_splits option.splits)

lemma replaceInReceivers_find:
  assumes "replaceInReceivers mergedReceiver receivers = Inr receivers'"
    and "find (\<lambda>receiver. UID receiver = UID mergedReceiver)
           (concat (map GrafanaManagedReceivers receivers)) = Some found"
  shows "find (\<lambda>receiver. UID receiver = UID mergedReceiver)
           (concat (map GrafanaManagedReceivers receivers')) \<in> {Some mergedReceiver, Some found}"
  using assms
proof (induction receivers arbitrary: receivers')
  case Nil
  then show ?case by simp
next
  case (Cons g rest)
  let ?P = "\<lambda>receiver. UID receiver = UID mergedReceiver"
  from Cons.prems(1) obtain rest' where rest: "replaceInReceivers mergedReceiver rest = Inr rest'"
    by (auto split: if_splits option.splits sum.splits)
  show ?case
  proof (cases "Receiver_Name g = Name mergedReceiver")
    case True
    with Cons.prems(1) rest obtain members where
      mem: "replaceMember mergedReceiver (GrafanaManagedReceivers g) = Some members"
      and res: "receivers' = g\<lparr>GrafanaManagedReceivers := members\<rparr> # rest'"
      by (auto split: option.splits)
    from replaceMember_find [OF mem] show ?thesis
      unfolding res by (simp add: find_append_cases)
  next
    case False
    with Cons.prems(1) rest have res: "receivers' = g # rest'"
      by (auto split: option.splits)
    show ?thesis
    proof (cases "find ?P (GrafanaManagedReceivers g)")
      case (Some r)
      with Cons.prems(2) have "r = found" by (simp add: find_append_cases)
      with Some show ?thesis unfolding res by (simp add: find_append_cases)
    next
      case None
      with Cons.prems(2) have "find ?P (concat (map GrafanaManagedReceivers rest)) = Some found"
        by (simp add: find_append_cases)
      from Cons.IH [OF rest this] None show ?thesis
        unfolding res by (simp add: find_append_cases)
    qed
  qed
qed

lemma list_all2_key_forward:
  assumes "list_all2 (\<lambda>key kv. fst kv = key \<and> Q key (snd kv)) keys kvs" and "k \<in> set keys"
  shows "\<exists>c. (k, c) \<in> set kvs \<and> Q k c"
proof -
  from assms(2) obtain i where i: "i < length keys" "keys ! i = k"
    by (auto simp: in_set_conv_nth)
  with assms(1) have "i < length kvs" "fst (kvs ! i) = k" "Q k (snd (kvs ! i))"
    by (auto simp: list_all2_conv_all_nth)
  then show ?thesis
    by (intro exI [of _ "snd (kvs ! i)"]) (metis nth_mem prod.collapse)
qed

lemma list_all2_key_backward:
  assumes "list_all2 (\<lambda>key kv. fst kv = key \<and> Q key (snd kv)) keys kvs" and "(k, c) \<in> set kvs"
  shows "Q k c"
proof -
  from assms(2) obtain i where i: "i < length kvs" "kvs ! i = (k, c)"
    by (auto simp: in_set_conv_nth)
  with assms(1) have "fst (kvs ! i) = keys ! i" "Q (keys ! i) (snd (kvs ! i))"
    by (auto simp: list_all2_conv_all_nth)
  with i show ?thesis by simp
qed


text \<open>What the internal accessor reads under the UID after a successful update over the
  stores of the model: the merged receiver, or the receiver it read before.\<close>

lemma UpdateContactPoint_then_uncrypted:
  assumes stores: "withStores H ecp = ecp"
    and rt: "\<forall>cfg' data'. Marshal ecp cfg' = Inr data' \<longrightarrow>
               DeserializeAlertmanagerConfig ecp data' = Inr cfg'"
    and raw: "getContactPointUncrypted ecp orgID (UID mergedReceiver) s = Inr raw"
    and cur: "getCurrentConfig ecp orgID s = Inr (cfg, fetchedHash)"
    and rep: "replaceInReceivers mergedReceiver (Receivers cfg) = Inr receivers"
    and ma: "Marshal ecp (cfg\<lparr>Receivers := receivers\<rparr>) = Inr data"
    and up: "UpdateAlertmanagerConfiguration ecp (saveCmd data fetchedHash orgID) s = Inr s'"
  shows "getContactPointUncrypted ecp orgID (UID mergedReceiver) s' = Inr raw \<or>
         getContactPointUncrypted ecp orgID (UID mergedReceiver) s' =
           Inr (uncryptedContactPoint ecp mergedReceiver)"
proof -
  let ?P = "\<lambda>receiver. UID receiver = UID mergedReceiver"
  from raw cur obtain found where
    found: "find ?P (concat (map GrafanaManagedReceivers (Receivers cfg))) = Some found"
    and raw_eq: "raw = uncryptedContactPoint ecp found"
    by (auto simp: getContactPointUncrypted_def GetGrafanaReceiverMap_def split: option.splits)
  from up have "s' = s\<lparr>configs := (configs s)(orgID \<mapsto> (data, H data))\<rparr>"
    unfolding withStores_fields [OF stores] by (auto dest: store_Update_Inr simp: saveCmd_def)
  then have "configs s' orgID = Some (data, H data)" by simp
  moreover from ma rt have "DeserializeAlertmanagerConfig ecp data = Inr (cfg\<lparr>Receivers := receivers\<rparr>)"
    by blast
  ultimately have cur': "getCurrentConfig ecp orgID s' = Inr (cfg\<lparr>Receivers := receivers\<rparr>, H data)"
    by (simp add: getCurrentConfig_def withStores_fields [OF stores] store_GetLatest_def)
  from replaceInReceivers_find [OF rep found]
  have "find ?P (concat (map GrafanaManagedReceivers receivers)) = Some mergedReceiver \<or>
        find ?P (concat (map GrafanaManagedReceivers receivers)) = Some found"
    by simp
  then show ?thesis
    using cur' raw_eq
    by (auto simp: getContactPointUncrypted_def GetGrafanaReceiverMap_def)
qed

lemma example_uncrypted_u1:
  "\<exists>raw. getContactPointUncrypted exampleService 1 ''u1'' exampleStore = Inr raw \<and>
     Settings raw ''password'' = Some (JString ''hunter2'')"
  by (simp add: update_defs)

text \<open>
  C3. In a successful \<open>UpdateContactPoint\<close> the contact point that is validated, and
  whose secrets are extracted and encrypted for the saved receiver, is the submitted one
  with, under every secret key of its type whose submitted value is the sentinel, the
  string the unredacted contact point (read by the internal accessor) holds under that
  key; every other setting is as submitted. So secrets sent as sentinels are preserved:
  over the stores of the model (\<open>withStores H ecp = ecp\<close>), with a cipher and a
  serialisation that read back what they wrote, for every secret key sent as the sentinel
  whose previously stored plaintext is non-empty, the internal accessor after the update
  shows that same plaintext under the key.
\<close>

theorem UpdateContactPoint_merges:
  assumes "UpdateContactPoint ecp orgID contactPoint s = (None, s')"
  shows "\<exists>raw secretKeys merged extracedSecrets cfg fetchedHash receivers data.
           getContactPointUncrypted ecp orgID (UID contactPoint) s = Inr raw \<and>
           SecretKeys ecp (Type contactPoint) = Inr secretKeys \<and>
           merged = contactPoint\<lparr>Settings := (\<lambda>k.
               if k \<in> set secretKeys \<and> MustString (Get (Settings contactPoint) k) = RedactedValue
               then Some (JString (MustString (Get (Settings raw) k)))
               else Settings contactPoint k)\<rparr> \<and>
           IsValid ecp merged = None \<and>
           list_all2 (\<lambda>secretKey kv. fst kv = secretKey \<and>
               encryptValue ecp (MustString (Get (Settings merged) secretKey)) = Inr (snd kv))
             secretKeys extracedSecrets \<and>
           getCurrentConfig ecp orgID s = Inr (cfg, fetchedHash) \<and>
           replaceInReceivers
             \<lparr>UID = UID contactPoint, Name = Name contactPoint, Type = Type contactPoint,
              DisableResolveMessage = DisableResolveMessage contactPoint,
              Settings = Settings merged |` (- set secretKeys),
              SecureSettings = extracedSecrets\<rparr>
             (Receivers cfg) = Inr receivers \<and>
           Marshal ecp (cfg\<lparr>Receivers := receivers\<rparr>) = Inr data \<and>
           UpdateAlertmanagerConfiguration ecp (saveCmd data fetchedHash orgID) s = Inr s' \<and>
           (\<forall>k p.
              withStores H ecp = ecp \<and>
              (\<forall>p c. encryptValue ecp p = Inr c \<longrightarrow> decrypteValue ecp c = Inr p) \<and>
              (\<forall>cfg' data'. Marshal ecp cfg' = Inr data' \<longrightarrow>
                 DeserializeAlertmanagerConfig ecp data' = Inr cfg') \<and>
              k \<in> set secretKeys \<and>
              MustString (Get (Settings contactPoint) k) = RedactedValue \<and>
              MustString (Get (Settings raw) k) = p \<and> p \<noteq> [] \<longrightarrow>
              (\<exists>raw'. getContactPointUncrypted ecp orgID (UID contactPoint) s' = Inr raw' \<and>
                 Settings raw' k = Some (JString p)))"
proof -
  from assms obtain raw secretKeys plainSecrets stripped extracedSecrets cfg fetchedHash receivers data
    where raw: "getContactPointUncrypted ecp orgID (UID contactPoint) s = Inr raw"
      and keys: "SecretKeys ecp (Type contactPoint) = Inr secretKeys"
      and valid: "IsValid ecp (mergeRedacted raw secretKeys contactPoint) = None"
      and ex: "ExtractSecrtes ecp (mergeRedacted raw secretKeys contactPoint) = Inr (plainSecrets, stripped)"
      and en: "encryptSecrets ecp plainSecrets = Inr extracedSecrets"
      and cur: "getCurrentConfig ecp orgID s = Inr (cfg, fetchedHash)"
      and rep: "replaceInReceivers
         \<lparr>UID = UID stripped, Name = Name stripped, Type = Type stripped,
          DisableResolveMessage = DisableResolveMessage stripped,
          Settings = Settings stripped, SecureSettings = extracedSecrets\<rparr>
         (Receivers cfg) = Inr receivers"
      and ma: "Marshal ecp (cfg\<lparr>Receivers := receivers\<rparr>) = Inr data"
      and up: "UpdateAlertmanagerConfiguration ecp (saveCmd data fetchedHash orgID) s = Inr s'"
    by (rule UpdateContactPoint_None)
  define merged where "merged = mergeRedacted raw secretKeys contactPoint"
  have merged_eq: "merged = contactPoint\<lparr>Settings := (\<lambda>k.
               if k \<in> set secretKeys \<and> MustString (Get (Settings contactPoint) k) = RedactedValue
               then Some (JString (MustString (Get (Settings raw) k)))
               else Settings contactPoint k)\<rparr>"
    unfolding merged_def by (rule mergeRedacted_eq)
  have valid': "IsValid ecp merged = None" using valid unfolding merged_def .
  from ex keys have plain: "plainSecrets =
      map (\<lambda>secretKey. (secretKey, MustString (Get (Settings merged) secretKey))) secretKeys"
    and stripped: "stripped = merged\<lparr>Settings := Settings merged |` (- set secretKeys)\<rparr>"
    unfolding merged_def
    by (auto simp: ExtractSecrtes_def mergeRedacted_fields split: sum.splits)
  have secrets: "list_all2 (\<lambda>secretKey kv. fst kv = secretKey \<and>
        encryptValue ecp (MustString (Get (Settings merged) secretKey)) = Inr (snd kv))
      secretKeys extracedSecrets"
    using encryptSecrets_Inr [OF en] unfolding plain by (simp add: list_all2_map1)
  let ?m = "\<lparr>UID = UID contactPoint, Name = Name contactPoint, Type = Type contactPoint,
              DisableResolveMessage = DisableResolveMessage contactPoint,
              Settings = Settings merged |` (- set secretKeys),
              SecureSettings = extracedSecrets\<rparr>"
  have "\<lparr>UID = UID stripped, Name = Name stripped, Type = Type stripped,
          DisableResolveMessage = DisableResolveMessage stripped,
          Settings = Settings stripped, SecureSettings = extracedSecrets\<rparr> = ?m"
    unfolding stripped by (simp add: merged_def mergeRedacted_fields)
  with rep have rep': "replaceInReceivers ?m (Receivers cfg) = Inr receivers" by simp
  have kept: "\<forall>k p.
              withStores H ecp = ecp \<and>
              (\<forall>p c. encryptValue ecp p = Inr c \<longrightarrow> decrypteValue ecp c = Inr p) \<and>
              (\<forall>cfg' data'. Marshal ecp cfg' = Inr data' \<longrightarrow>
                 DeserializeAlertmanagerConfig ecp data' = Inr cfg') \<and>
              k \<in> set secretKeys \<and>
              MustString (Get (Settings contactPoint) k) = RedactedValue \<and>
              MustString (Get (Settings raw) k) = p \<and> p \<noteq> [] \<longrightarrow>
              (\<exists>raw'. getContactPointUncrypted ecp orgID (UID contactPoint) s' = Inr raw' \<and>
                 Settings raw' k = Some (JString p))"
  proof (intro allI impI)
    fix k p
    assume a: "withStores H ecp = ecp \<and>
              (\<forall>p c. encryptValue ecp p = Inr c \<longrightarrow> decrypteValue ecp c = Inr p) \<and>
              (\<forall>cfg' data'. Marshal ecp cfg' = Inr data' \<longrightarrow>
                 DeserializeAlertmanagerConfig ecp data' = Inr cfg') \<and>
              k \<in> set secretKeys \<and>
              MustString (Get (Settings contactPoint) k) = RedactedValue \<and>
              MustString (Get (Settings raw) k) = p \<and> p \<noteq> []"
    then have stores: "withStores H ecp = ecp"
      and crypto: "\<And>p c. encryptValue ecp p = Inr c \<Longrightarrow> decrypteValue ecp c = Inr p"
      and rt: "\<forall>cfg' data'. Marshal ecp cfg' = Inr data' \<longrightarrow>
                 DeserializeAlertmanagerConfig ecp data' = Inr cfg'"
      and k: "k \<in> set secretKeys"
      and sentinel: "MustString (Get (Settings contactPoint) k) = RedactedValue"
      and p: "MustString (Get (Settings raw) k) = p" "p \<noteq> []"
      by blast+
    have uid: "UID ?m = UID contactPoint" by simp
    from UpdateContactPoint_then_uncrypted [OF stores rt _ cur rep' ma up, of raw] raw
    have "getContactPointUncrypted ecp orgID (UID contactPoint) s' = Inr raw \<or>
          getContactPointUncrypted ecp orgID (UID contactPoint) s' =
            Inr (uncryptedContactPoint ecp ?m)"
      unfolding uid by blast
    moreover have "Settings raw k = Some (JString p)"
      using p by (rule MustString_nonempty)
    moreover have "Settings (uncryptedContactPoint ecp ?m) k = Some (JString p)"
    proof -
      have at_k: "MustString (Get (Settings merged) k) = p"
        unfolding merged_eq using k sentinel p by (simp add: Get_def)
      have all: "\<forall>c. (k, c) \<in> set extracedSecrets \<and> populated ecp c \<longrightarrow>
          decrypteValue ecp c = Inr p"
      proof (intro allI impI)
        fix c assume "(k, c) \<in> set extracedSecrets \<and> populated ecp c"
        then have "(k, c) \<in> set extracedSecrets" by simp
        from list_all2_key_backward [OF secrets this]
        have "encryptValue ecp p = Inr c" unfolding at_k .
        then show "decrypteValue ecp c = Inr p" by (rule crypto)
      qed
      from list_all2_key_forward [OF secrets k] obtain c where
        c: "(k, c) \<in> set extracedSecrets" "encryptValue ecp p = Inr c"
        unfolding at_k by blast
      then have "decrypteValue ecp c = Inr p" by (simp add: crypto)
      with p have "populated ecp c" by (simp add: populated_def)
      with c have some: "\<exists>c. (k, c) \<in> set extracedSecrets \<and> populated ecp c" by blast
      show ?thesis
        unfolding uncryptedContactPoint_fields
        using setSecureSettings_agree [OF all] some by simp
    qed
    ultimately show "\<exists>raw'. getContactPointUncrypted ecp orgID (UID contactPoint) s' = Inr raw' \<and>
                 Settings raw' k = Some (JString p)"
      by blast
  qed
  show ?thesis
    apply (rule exI [of _ raw], rule exI [of _ secretKeys], rule exI [of _ merged])
    apply (rule exI [of _ extracedSecrets], rule exI [of _ cfg], rule exI [of _ fetchedHash])
    apply (rule exI [of _ receivers], rule exI [of _ data])
    using raw keys merged_eq valid' secrets cur rep' ma up kept by (intro conjI)
qed


theorem UpdateContactPoint_merges_witness:
  "UpdateContactPoint exampleService 1 exampleUpdate exampleStore =
     (None, snd (UpdateContactPoint exampleService 1 exampleUpdate exampleStore)) \<and>
   withStores exampleHash exampleService = exampleService \<and>
   SecretKeys exampleService (Type exampleUpdate) = Inr [''password''] \<and>
   Settings exampleUpdate ''password'' = Some (JString RedactedValue) \<and>
   (\<exists>raw. getContactPointUncrypted exampleService 1 ''u1'' exampleStore = Inr raw \<and>
      Settings raw ''password'' = Some (JString ''hunter2'')) \<and>
   (\<exists>raw'. getContactPointUncrypted exampleService 1 ''u1''
        (snd (UpdateContactPoint exampleService 1 exampleUpdate exampleStore)) = Inr raw' \<and>
      Settings raw' ''password'' = Some (JString ''hunter2''))"
proof -
  let ?run = "UpdateContactPoint exampleService 1 exampleUpdate exampleStore"
  have updated: "?run = (None, snd ?run)"
    using example_update by (simp add: prod_eq_iff)
  have keys: "SecretKeys exampleService (Type exampleUpdate) = Inr [''password'']"
    by (simp add: exampleService_def exampleSecretKeys_def exampleUpdate_def)
  have sent: "Settings exampleUpdate ''password'' = Some (JString RedactedValue)"
    by (simp add: exampleUpdate_def)
  have uid: "UID exampleUpdate = ''u1''" by (simp add: exampleUpdate_def)
  from example_uncrypted_u1 obtain raw0 where
    raw0: "getContactPointUncrypted exampleService 1 ''u1'' exampleStore = Inr raw0"
    "Settings raw0 ''password'' = Some (JString ''hunter2'')"
    by blast
  have crypto: "\<forall>p c. encryptValue exampleService p = Inr c \<longrightarrow> decrypteValue exampleService c = Inr p"
    by (auto simp: encryptValue_def decrypteValue_def example_defs)
  have rt: "\<forall>cfg' data'. Marshal exampleService cfg' = Inr data' \<longrightarrow>
      DeserializeAlertmanagerConfig exampleService data' = Inr cfg'"
    by (simp add: exampleService_def)
  from UpdateContactPoint_merges [OF updated, of exampleHash] obtain raw secretKeys where
    raw: "getContactPointUncrypted exampleService 1 (UID exampleUpdate) exampleStore = Inr raw" and
    keys': "SecretKeys exampleService (Type exampleUpdate) = Inr secretKeys" and
    kept: "\<forall>k p.
              withStores exampleHash exampleService = exampleService \<and>
              (\<forall>p c. encryptValue exampleService p = Inr c \<longrightarrow> decrypteValue exampleService c = Inr p) \<and>
              (\<forall>cfg' data'. Marshal exampleService cfg' = Inr data' \<longrightarrow>
                 DeserializeAlertmanagerConfig exampleService data' = Inr cfg') \<and>
              k \<in> set secretKeys \<and>
              MustString (Get (Settings exampleUpdate) k) = RedactedValue \<and>
              MustString (Get (Settings raw) k) = p \<and> p \<noteq> [] \<longrightarrow>
              (\<exists>raw'. getContactPointUncrypted exampleService 1 (UID exampleUpdate) (snd ?run) = Inr raw' \<and>
                 Settings raw' k = Some (JString p))"
    by blast
  from raw raw0 have "raw = raw0" unfolding uid by simp
  with raw0 have value_raw: "MustString (Get (Settings raw) ''password'') = ''hunter2''"
    by (simp add: Get_def)
  from keys keys' have mem: "''password'' \<in> set secretKeys" by auto
  have value_cp: "MustString (Get (Settings exampleUpdate) ''password'') = RedactedValue"
    using sent by (simp add: Get_def)
  have nonempty: "''hunter2'' \<noteq> []" by simp
  from kept [rule_format, of "''password''" "''hunter2''"]
    example_withStores crypto rt mem value_cp value_raw nonempty
  have "\<exists>raw'. getContactPointUncrypted exampleService 1 (UID exampleUpdate) (snd ?run) = Inr raw' \<and>
      Settings raw' ''password'' = Some (JString ''hunter2'')"
    by blast
  then have after: "\<exists>raw'. getContactPointUncrypted exampleService 1 ''u1'' (snd ?run) = Inr raw' \<and>
      Settings raw' ''password'' = Some (JString ''hunter2'')"
    unfolding uid .
  from updated example_withStores keys sent example_uncrypted_u1 after show ?thesis
    by (intro conjI)
qed

subsection \<open>Two writers\<close>






















end
